theory Spec2Isabelle
  imports Complex_Main "HOL-Library.Word"
begin

unbundle bit_operations_syntax

section \<open>JavaScript values and the built-ins the facilitator calls\<close>

text \<open>
  A thrown JavaScript error, with its message.  A function of the source that can throw
  returns \<open>js_error + 'a\<close>, with \<open>Inl\<close> for the throw.
\<close>

datatype js_error = Error string | TypeError string

fun message :: "js_error \<Rightarrow> string" where
  "message (Error m) = m"
| "message (TypeError m) = m"

text \<open>
  Values of type \<open>unknown\<close> (the fields of a decoded transaction and of a ledger node).
  The numeric fields of the ledger format (Sequence, Flags, LastLedgerSequence) are
  integers below \<open>2 ^ 53\<close>, so a number is an \<open>int\<close>.  Strings are lists of ASCII
  characters.
\<close>

datatype jsval =
    JUndefined
  | JNull
  | JBool bool
  | JNum int
  | JStr string
  | JObj "(string \<times> jsval) list"

type_synonym jsobj = "(string \<times> jsval) list"

text \<open>\<open>obj[k]\<close>: a missing property reads as \<open>undefined\<close>.  \<open>k in obj\<close>.\<close>

definition getProp :: "jsobj \<Rightarrow> string \<Rightarrow> jsval" where
  "getProp obj k = (case map_of obj k of Some v \<Rightarrow> v | None \<Rightarrow> JUndefined)"

definition hasProp :: "jsobj \<Rightarrow> string \<Rightarrow> bool" where
  "hasProp obj k = (map_of obj k \<noteq> None)"

subsection \<open>Digits\<close>

definition isDigit :: "char \<Rightarrow> bool" where
  "isDigit c = (c \<in> set ''0123456789'')"

text \<open>The value of a digit in base 16 and below (\<open>0-9\<close>, \<open>a-f\<close>, \<open>A-F\<close>).\<close>

definition digitValue :: "char \<Rightarrow> nat option" where
  "digitValue c =
     (let n = (of_char c :: nat) in
      if 48 \<le> n \<and> n \<le> 57 then Some (n - 48)
      else if 97 \<le> n \<and> n \<le> 102 then Some (n - 87)
      else if 65 \<le> n \<and> n \<le> 70 then Some (n - 55)
      else None)"

text \<open>
  A non-empty run of digits of the given base, read left to right; \<open>None\<close> when the run
  is empty or holds another character.
\<close>

fun digitsFrom :: "nat \<Rightarrow> nat \<Rightarrow> string \<Rightarrow> nat option" where
  "digitsFrom base acc [] = Some acc"
| "digitsFrom base acc (c # cs) =
     (case digitValue c of
        None \<Rightarrow> None
      | Some d \<Rightarrow> if d < base then digitsFrom base (base * acc + d) cs else None)"

definition parseDigits :: "nat \<Rightarrow> string \<Rightarrow> nat option" where
  "parseDigits base s = (if s = [] then None else digitsFrom base 0 s)"

definition isWhiteSpace :: "char \<Rightarrow> bool" where
  "isWhiteSpace c = ((of_char c :: nat) \<in> set [9, 10, 11, 12, 13, 32])"

definition trim :: "string \<Rightarrow> string" where
  "trim s = rev (dropWhile isWhiteSpace (rev (dropWhile isWhiteSpace s)))"

subsection \<open>BigInt(string)\<close>

text \<open>
  ECMAScript \<open>StringToBigInt\<close>: surrounding white space is dropped; the empty string is
  \<open>0n\<close>; a decimal literal may carry a sign; \<open>0x\<close>, \<open>0o\<close> and \<open>0b\<close> literals may not.
  \<open>None\<close> is the SyntaxError that \<open>BigInt\<close> throws on anything else.
\<close>

definition signedInteger :: "string \<Rightarrow> int option" where
  "signedInteger t =
     (case t of
        [] \<Rightarrow> None
      | c # ds \<Rightarrow>
          if c = CHR ''+'' then map_option int (parseDigits 10 ds)
          else if c = CHR ''-'' then map_option (\<lambda>n. - int n) (parseDigits 10 ds)
          else map_option int (parseDigits 10 t))"

definition BigInt :: "string \<Rightarrow> int option" where
  "BigInt str =
     (let t = trim str in
      if t = [] then Some 0
      else if take 2 t = ''0x'' \<or> take 2 t = ''0X'' then map_option int (parseDigits 16 (drop 2 t))
      else if take 2 t = ''0o'' \<or> take 2 t = ''0O'' then map_option int (parseDigits 8 (drop 2 t))
      else if take 2 t = ''0b'' \<or> take 2 t = ''0B'' then map_option int (parseDigits 2 (drop 2 t))
      else signedInteger t)"

subsection \<open>Numbers and parseFloat\<close>

text \<open>
  A number that is not NaN: a finite double is the rational it stands for.  NaN is
  \<open>None\<close> in a \<open>double option\<close>.
\<close>

datatype double = NegInfinity | Finite rat | PosInfinity

fun double_less :: "double \<Rightarrow> double \<Rightarrow> bool" where
  "double_less NegInfinity d = (d \<noteq> NegInfinity)"
| "double_less (Finite a) (Finite b) = (a < b)"
| "double_less (Finite a) PosInfinity = True"
| "double_less (Finite a) NegInfinity = False"
| "double_less PosInfinity d = False"

text \<open>\<open>a < b\<close>, \<open>a <= b\<close> and \<open>a !== b\<close> on numbers: every comparison with NaN is false,
  and NaN is different from every number, itself included.\<close>

fun number_less :: "double option \<Rightarrow> double option \<Rightarrow> bool" where
  "number_less (Some a) (Some b) = double_less a b"
| "number_less _ _ = False"

fun number_le :: "double option \<Rightarrow> double option \<Rightarrow> bool" where
  "number_le (Some a) (Some b) = (a = b \<or> double_less a b)"
| "number_le _ _ = False"

fun number_neq :: "double option \<Rightarrow> double option \<Rightarrow> bool" where
  "number_neq (Some a) (Some b) = (a \<noteq> b)"
| "number_neq _ _ = True"

definition pow10 :: "int \<Rightarrow> rat" where
  "pow10 e = (if 0 \<le> e then 10 ^ nat e else 1 / 10 ^ nat (- e))"

definition digitsVal :: "string \<Rightarrow> nat" where
  "digitsVal ds = foldl (\<lambda>a c. 10 * a + (of_char c - 48)) 0 ds"

text \<open>An optional sign: whether it is a minus, and the rest of the string.\<close>

definition signOf :: "string \<Rightarrow> bool \<times> string" where
  "signOf t =
     (case t of
        [] \<Rightarrow> (False, t)
      | c # rest \<Rightarrow>
          if c = CHR ''-'' then (True, rest)
          else if c = CHR ''+'' then (False, rest)
          else (False, t))"

text \<open>
  The exponent part at the head of a string: \<open>e\<close> or \<open>E\<close>, an optional sign and
  at least one digit; \<open>0\<close> when the string does not start with one.
\<close>

definition exponentPart :: "string \<Rightarrow> int" where
  "exponentPart r =
     (case r of
        [] \<Rightarrow> 0
      | c # rest \<Rightarrow>
          if c = CHR ''e'' \<or> c = CHR ''E'' then
            (let (neg, ed) = signOf rest; ds = takeWhile isDigit ed in
             if ds = [] then 0
             else if neg then - int (digitsVal ds) else int (digitsVal ds))
          else 0)"

text \<open>
  The mathematical value of the longest prefix that is a \<open>StrDecimalLiteral\<close> (after
  leading white space), or \<open>None\<close> when no prefix is one.  \<open>Inl\<close> is the literal
  \<open>Infinity\<close> with its sign.
\<close>

definition decimalLiteral :: "string \<Rightarrow> (bool + rat) option" where
  "decimalLiteral str =
     (let (neg, u) = signOf (dropWhile isWhiteSpace str) in
      if take 8 u = ''Infinity'' then Some (Inl neg)
      else
        let ip = takeWhile isDigit u;
            r1 = dropWhile isDigit u;
            dot = (r1 \<noteq> [] \<and> hd r1 = CHR ''.'');
            fp = (if dot then takeWhile isDigit (tl r1) else []);
            r2 = (if dot then dropWhile isDigit (tl r1) else r1)
        in if ip = [] \<and> fp = [] then None
           else
             let mv = (of_nat (digitsVal (ip @ fp)) / 10 ^ length fp) * pow10 (exponentPart r2)
             in Some (Inr (if neg then - mv else mv)))"

text \<open>\<open>String(v)\<close> on a value of type \<open>unknown\<close>.\<close>

fun show_nat :: "nat \<Rightarrow> string" where
  "show_nat n =
     (if n < 10 then [char_of (48 + n)]
      else show_nat (n div 10) @ [char_of (48 + n mod 10)])"

declare show_nat.simps [simp del]

definition show_int :: "int \<Rightarrow> string" where
  "show_int i = (if i < 0 then CHR ''-'' # show_nat (nat (- i)) else show_nat (nat i))"

fun js_String :: "jsval \<Rightarrow> string" where
  "js_String JUndefined = ''undefined''"
| "js_String JNull = ''null''"
| "js_String (JBool b) = (if b then ''true'' else ''false'')"
| "js_String (JNum i) = show_int i"
| "js_String (JStr s) = s"
| "js_String (JObj fs) = ''[object Object]''"

section \<open>The data model (types/x402.ts, types/xrpl-payload.ts)\<close>

text \<open>
  \<open>string | IssuedCurrencyAmount | MPTAmount\<close>.  The type guards of the source look at
  the property names an object carries, so an object amount is kept as its list of
  properties (all of them strings, as the boundary schema has them).
\<close>

datatype amount = AStr string | AObj "(string \<times> string) list"

text \<open>\<open>amount.k\<close>: \<open>undefined\<close> on a string and on an object without the property.\<close>

fun amountField :: "amount \<Rightarrow> string \<Rightarrow> jsval" where
  "amountField (AStr s) k = JUndefined"
| "amountField (AObj fs) k = (case map_of fs k of Some v \<Rightarrow> JStr v | None \<Rightarrow> JUndefined)"

definition hasField :: "(string \<times> string) list \<Rightarrow> string \<Rightarrow> bool" where
  "hasField fs k = (map_of fs k \<noteq> None)"

fun isIssuedCurrencyAmount :: "amount \<Rightarrow> bool" where
  "isIssuedCurrencyAmount (AStr s) = False"
| "isIssuedCurrencyAmount (AObj fs) =
     (hasField fs ''currency'' \<and> hasField fs ''issuer'' \<and> hasField fs ''value'')"

fun isMPTAmount :: "amount \<Rightarrow> bool" where
  "isMPTAmount (AStr s) = False"
| "isMPTAmount (AObj fs) =
     (hasField fs ''mpt_issuance_id'' \<and> hasField fs ''value'' \<and> \<not> hasField fs ''currency'')"

record XrplAuthorization =
  account :: string
  destination :: string
  amount :: amount
  fee :: string
  sequence :: int
  ticketSequence :: "int option"
  lastLedgerSequence :: "int option"

record FeeAuthorization =
  fee_account :: string
  fee_destination :: string
  fee_amount :: string
  fee_sequence :: int
  fee_ticketSequence :: "int option"

record ExactXrplPayload =
  txBlob :: string
  authorization :: XrplAuthorization
  feeTxBlob :: "string option"
  feeAuthorization :: "FeeAuthorization option"

record PaymentRequirements =
  scheme :: string
  req_network :: string
  payTo :: string
  maxAmountRequired :: string
  asset :: string

record VerifyResponse =
  isValid :: bool
  invalidReason :: "string option"

record SettleResponse =
  success :: bool
  transaction :: "string option"
  network :: "string option"
  payer :: "string option"
  errorReason :: "string option"

definition invalid :: "string \<Rightarrow> VerifyResponse" where
  "invalid r = \<lparr>isValid = False, invalidReason = Some r\<rparr>"

definition valid :: VerifyResponse where
  "valid = \<lparr>isValid = True, invalidReason = None\<rparr>"

datatype AssetType = Xrp | Issued | Mpt

definition startsWith :: "string \<Rightarrow> string \<Rightarrow> bool" where
  "startsWith s p = (take (length p) s = p)"

definition classifyAsset :: "string \<Rightarrow> js_error + AssetType" where
  "classifyAsset a =
     (if a = ''XRP'' then Inr Xrp
      else if startsWith a ''r'' then Inr Issued
      else if startsWith a ''mpt:'' then Inr Mpt
      else Inl (Error (''Unknown asset format: '' @ a)))"

section \<open>Configuration and the ledger library (xrpl/constants.ts, facilitator/fee.ts)\<close>

record MptConfig =
  issuanceId :: string
  name :: string
  issuer :: string
  assetScale :: nat

record fee_schedule =
  standard :: "string option"
  mpt :: "string option"
  crossCurrency :: "string option"

text \<open>The constants as the repository ships them.\<close>

definition FEE_SCHEDULE :: fee_schedule where
  "FEE_SCHEDULE = \<lparr>standard = None, mpt = Some ''0'', crossCurrency = Some ''0''\<rparr>"

definition MPT_ALLOWLIST :: "string \<Rightarrow> MptConfig list option" where
  "MPT_ALLOWLIST = (\<lambda>n. None)"

definition PARTIAL_PAYMENT_FLAG :: "32 word" where
  "PARTIAL_PAYMENT_FLAG = 0x00020000"

definition tfMPTCanTransfer :: "32 word" where
  "tfMPTCanTransfer = 0x0020"

text \<open>
  What the module reads from outside itself: the three functions of the \<open>xrpl\<close> package
  (each may throw), the runtime's conversion of a decimal value to the nearest double,
  the environment variable \<open>FACILITATOR_ADDRESS\<close>, and the fee schedule and allowlist in
  force (the module-level constants above in the shipped build; the source says fees are
  turned on by changing them, and the allowlist is filled when an issuer is onboarded).
\<close>

record env =
  decode :: "string \<Rightarrow> js_error + jsobj"
  validate :: "jsobj \<Rightarrow> js_error + unit"
  verifySignature :: "string \<Rightarrow> js_error + bool"
  toDouble :: "rat \<Rightarrow> double"
  FACILITATOR_ADDRESS :: "string option"
  feeSchedule :: fee_schedule
  mptAllowlist :: "string \<Rightarrow> MptConfig list option"

definition parseFloat :: "env \<Rightarrow> string \<Rightarrow> double option" where
  "parseFloat env str =
     (case decimalLiteral str of
        None \<Rightarrow> None
      | Some (Inl neg) \<Rightarrow> Some (if neg then NegInfinity else PosInfinity)
      | Some (Inr mv) \<Rightarrow> Some (toDouble env mv))"

text \<open>
  The allowlist is a plain object, and \<open>mptAllowlist\<close> gives its own properties.  A
  name that is not an own property still reads as a value when \<open>Object.prototype\<close> has
  it; none of these values is nullish and none has a \<open>find\<close>.
\<close>

definition inheritedProperties :: "string list" where
  "inheritedProperties =
     [''constructor'', ''__defineGetter__'', ''__defineSetter__'', ''hasOwnProperty'',
      ''__lookupGetter__'', ''__lookupSetter__'', ''isPrototypeOf'',
      ''propertyIsEnumerable'', ''toString'', ''valueOf'', ''__proto__'',
      ''toLocaleString'']"

text \<open>
  \<open>MPT_ALLOWLIST[network]?.find(...)\<close>: the list of the network is searched; a network
  without a list gives \<open>undefined\<close>, unless its name is an inherited property, where
  calling the missing \<open>find\<close> throws a TypeError (the message is the engine's).
\<close>

definition getMptConfig :: "env \<Rightarrow> string \<Rightarrow> jsval \<Rightarrow> js_error + MptConfig option" where
  "getMptConfig env net ident =
     (case mptAllowlist env net of
        Some cfgs \<Rightarrow> Inr (find (\<lambda>m. JStr (issuanceId m) = ident) cfgs)
      | None \<Rightarrow>
          if net \<in> set inheritedProperties then
            Inl (TypeError ''MPT_ALLOWLIST[network]?.find is not a function'')
          else Inr None)"

text \<open>A string or an optional value in a condition: the empty string and \<open>undefined\<close>
  are falsy.\<close>

fun truthy :: "string option \<Rightarrow> bool" where
  "truthy None = False"
| "truthy (Some s) = (s \<noteq> [])"

section \<open>Offline verification steps (facilitator/verify.ts)\<close>

text \<open>Each step returns \<open>None\<close> when it passes and \<open>Some\<close> failure response otherwise.\<close>

text \<open>Step 1: decode the blob.\<close>

definition decodeTxBlob :: "env \<Rightarrow> string \<Rightarrow> VerifyResponse + jsobj" where
  "decodeTxBlob env blob =
     (case decode env blob of
        Inl e \<Rightarrow> Inl (invalid ''invalid_tx_blob'')
      | Inr tx \<Rightarrow> Inr tx)"

text \<open>Step 2: structural validation.\<close>

definition validateTransaction :: "env \<Rightarrow> jsobj \<Rightarrow> VerifyResponse option" where
  "validateTransaction env tx =
     (case validate env tx of
        Inl e \<Rightarrow> Some (invalid ''invalid_transaction_structure'')
      | Inr u \<Rightarrow> None)"

text \<open>Step 3: signature.\<close>

definition verifyTxSignature :: "env \<Rightarrow> string \<Rightarrow> VerifyResponse option" where
  "verifyTxSignature env blob =
     (case verifySignature env blob of
        Inl e \<Rightarrow> Some (invalid ''signature_verification_failed'')
      | Inr ok \<Rightarrow> if \<not> ok then Some (invalid ''invalid_signature'') else None)"

text \<open>
  Step 4: the claimed fields against the decoded ones.  \<open>!==\<close> between a decoded value
  and a claimed string or number is inequality of values.  In the last branch of the
  amount comparison the claimed amount is a string, or an object that neither type guard
  accepts; a decoded value is never the same object as the claimed one, so \<open>!==\<close> holds
  for an object.
\<close>

definition crossCheckAuthorization ::
    "env \<Rightarrow> jsobj \<Rightarrow> ExactXrplPayload \<Rightarrow> VerifyResponse option" where
  "crossCheckAuthorization env tx payload =
     (let auth = authorization payload;
          txAmount = getProp tx ''Amount'';
          amountMismatch =
            (if isIssuedCurrencyAmount (amount auth) then
               (case txAmount of
                  JObj txAmountObj \<Rightarrow>
                    getProp txAmountObj ''currency'' \<noteq> amountField (amount auth) ''currency'' \<or>
                    getProp txAmountObj ''issuer'' \<noteq> amountField (amount auth) ''issuer'' \<or>
                    number_neq (parseFloat env (js_String (getProp txAmountObj ''value'')))
                      (parseFloat env (js_String (amountField (amount auth) ''value'')))
                | _ \<Rightarrow> True)
             else if isMPTAmount (amount auth) then
               (case txAmount of
                  JObj txAmountObj \<Rightarrow>
                    getProp txAmountObj ''mpt_issuance_id'' \<noteq>
                      amountField (amount auth) ''mpt_issuance_id'' \<or>
                    number_neq (parseFloat env (js_String (getProp txAmountObj ''value'')))
                      (parseFloat env (js_String (amountField (amount auth) ''value'')))
                | _ \<Rightarrow> True)
             else
               (case amount auth of
                  AStr s \<Rightarrow> txAmount \<noteq> JStr s
                | AObj fs \<Rightarrow> True));
          sequenceMismatch =
            (case ticketSequence auth of
               Some t \<Rightarrow>
                 getProp tx ''Sequence'' \<noteq> JNum 0 \<or> getProp tx ''TicketSequence'' \<noteq> JNum t
             | None \<Rightarrow> getProp tx ''Sequence'' \<noteq> JNum (sequence auth));
          lastLedgerMismatch =
            (case lastLedgerSequence auth of
               Some l \<Rightarrow> getProp tx ''LastLedgerSequence'' \<noteq> JNum l
             | None \<Rightarrow> False)
      in
      if getProp tx ''Account'' \<noteq> JStr (account auth) then
        Some (invalid ''authorization_mismatch_account'')
      else if getProp tx ''Destination'' \<noteq> JStr (destination auth) then
        Some (invalid ''authorization_mismatch_destination'')
      else if getProp tx ''Fee'' \<noteq> JStr (fee auth) then
        Some (invalid ''authorization_mismatch_fee'')
      else if amountMismatch then Some (invalid ''authorization_mismatch_amount'')
      else if sequenceMismatch then Some (invalid ''authorization_mismatch_sequence'')
      else if lastLedgerMismatch then
        Some (invalid ''authorization_mismatch_last_ledger_sequence'')
      else None)"

text \<open>Step 5: destination.\<close>

definition checkDestination ::
    "ExactXrplPayload \<Rightarrow> PaymentRequirements \<Rightarrow> VerifyResponse option" where
  "checkDestination payload requirements =
     (if destination (authorization payload) \<noteq> payTo requirements then
        Some (invalid ''destination_mismatch'')
      else None)"

text \<open>
  Step 6: amount.  \<open>BigInt\<close> of an object amount that neither guard accepts throws like
  \<open>BigInt\<close> of a malformed string, and the \<open>catch\<close> turns both into
  \<open>invalid_amount_format\<close>.
\<close>

definition checkAmount ::
    "env \<Rightarrow> ExactXrplPayload \<Rightarrow> PaymentRequirements \<Rightarrow> VerifyResponse option" where
  "checkAmount env payload requirements =
     (let auth = authorization payload;
          requiredAmount = maxAmountRequired requirements
      in
      if isIssuedCurrencyAmount (amount auth) then
        (let paymentValue = parseFloat env (js_String (amountField (amount auth) ''value''));
             requiredValue = parseFloat env requiredAmount
         in if paymentValue = None \<or> requiredValue = None \<or>
               number_less paymentValue requiredValue
            then Some (invalid ''insufficient_amount'') else None)
      else if isMPTAmount (amount auth) then
        (let paymentValue = parseFloat env (js_String (amountField (amount auth) ''value''));
             requiredValue = parseFloat env requiredAmount
         in if paymentValue = None \<or> requiredValue = None \<or>
               number_less paymentValue requiredValue
            then Some (invalid ''insufficient_amount'') else None)
      else
        (case (case amount auth of AStr s \<Rightarrow> BigInt s | AObj fs \<Rightarrow> None) of
           None \<Rightarrow> Some (invalid ''invalid_amount_format'')
         | Some paymentDrops \<Rightarrow>
             (case BigInt requiredAmount of
                None \<Rightarrow> Some (invalid ''invalid_amount_format'')
              | Some requiredDrops \<Rightarrow>
                  if paymentDrops < requiredDrops then Some (invalid ''insufficient_amount'')
                  else None)))"

text \<open>
  Step 7: asset.  \<open>classifyAsset\<close> is called outside any \<open>try\<close>, so its throw leaves
  \<open>checkAsset\<close>.  The source's last branch (\<open>unsupported_asset_type\<close>) stands after the
  three values \<open>classifyAsset\<close> can return.
\<close>

definition checkAsset ::
    "ExactXrplPayload \<Rightarrow> PaymentRequirements \<Rightarrow> js_error + VerifyResponse option" where
  "checkAsset payload requirements =
     (let auth = authorization payload in
      case classifyAsset (asset requirements) of
        Inl e \<Rightarrow> Inl e
      | Inr Xrp \<Rightarrow>
          (case amount auth of
             AStr s \<Rightarrow> Inr None
           | AObj fs \<Rightarrow> Inr (Some (invalid ''asset_mismatch'')))
      | Inr Issued \<Rightarrow>
          if \<not> isIssuedCurrencyAmount (amount auth) then Inr (Some (invalid ''asset_mismatch''))
          else if amountField (amount auth) ''issuer'' \<noteq> JStr (asset requirements) then
            Inr (Some (invalid ''asset_mismatch_issuer''))
          else Inr None
      | Inr Mpt \<Rightarrow>
          if \<not> isMPTAmount (amount auth) then Inr (Some (invalid ''asset_mismatch''))
          else if amountField (amount auth) ''mpt_issuance_id'' \<noteq>
                  JStr (drop 4 (asset requirements)) then
            Inr (Some (invalid ''asset_mismatch_issuance_id''))
          else Inr None)"

text \<open>Step 8: the partial-payment flag; \<open>&\<close> works on the 32-bit value of the number.\<close>

definition rejectPartialPayment :: "jsobj \<Rightarrow> VerifyResponse option" where
  "rejectPartialPayment tx =
     (let flags = (case getProp tx ''Flags'' of JNum n \<Rightarrow> n | _ \<Rightarrow> 0) in
      if (word_of_int flags :: 32 word) AND PARTIAL_PAYMENT_FLAG \<noteq> 0 then
        Some (invalid ''partial_payment_not_allowed'')
      else None)"

text \<open>
  Step 12 (xrpl/mpt-checks.ts): the allowlist, a local lookup.  The lookup is made
  outside any \<open>try\<close>, so its throw leaves \<open>checkMptAllowlist\<close>.
\<close>

definition checkMptAllowlist ::
    "env \<Rightarrow> string \<Rightarrow> amount \<Rightarrow> js_error + VerifyResponse option" where
  "checkMptAllowlist env net mptAmount =
     (case getMptConfig env net (amountField mptAmount ''mpt_issuance_id'') of
        Inl e \<Rightarrow> Inl e
      | Inr None \<Rightarrow> Inr (Some (invalid ''mpt_not_allowlisted''))
      | Inr (Some config) \<Rightarrow> Inr None)"

section \<open>The ledger client and the network checks (xrpl/network-checks.ts, xrpl/mpt-checks.ts)\<close>

text \<open>
  Every call the facilitator makes on the client is recorded, in order.  An asynchronous
  function of the source takes the calls made so far and returns its result with the
  calls extended.  The answer of the ledger to a call may depend on everything asked
  before (the ledger moves on between calls), so each operation of the client is given
  the earlier calls; an answer is a response or a thrown error.
\<close>

datatype call =
    AccountInfo string
  | AccountObjects string
  | AccountLines string jsval
  | LedgerEntryIssuance jsval
  | LedgerEntryMPToken jsval string
  | Tx string
  | GetLedgerIndex
  | Submit string

record account_data =
  Balance :: string
  Sequence :: int

record trust_line =
  currency :: string
  limit :: string
  freeze_peer :: "bool option"

record submit_result =
  engine_result :: string
  hash :: "string option"

record tx_result =
  validated :: bool
  TransactionResult :: "string option"
  Account :: "string option"

record client =
  request_account_info :: "call list \<Rightarrow> string \<Rightarrow> js_error + account_data"
  request_account_objects :: "call list \<Rightarrow> string \<Rightarrow> js_error + jsobj list"
  request_account_lines :: "call list \<Rightarrow> string \<Rightarrow> jsval \<Rightarrow> js_error + trust_line list"
  request_ledger_entry :: "call list \<Rightarrow> call \<Rightarrow> js_error + jsobj option"
  request_tx :: "call list \<Rightarrow> string \<Rightarrow> js_error + tx_result"
  getLedgerIndex :: "call list \<Rightarrow> js_error + int"
  submit :: "call list \<Rightarrow> string \<Rightarrow> js_error + submit_result"

text \<open>The blobs submitted so far.\<close>

fun submitted :: "call list \<Rightarrow> string list" where
  "submitted [] = []"
| "submitted (Submit b # cs) = b # submitted cs"
| "submitted (c # cs) = submitted cs"

text \<open>
  Step 9: balance and sequence or ticket.  Everything stands in one \<open>try\<close> whose
  \<open>catch\<close> returns \<open>null\<close>; the ticket lookup has a \<open>try\<close> of its own.
\<close>

definition checkAccountBalance ::
    "client \<Rightarrow> string \<Rightarrow> amount \<Rightarrow> string \<Rightarrow> int \<Rightarrow> int option \<Rightarrow> call list \<Rightarrow>
     VerifyResponse option \<times> call list" where
  "checkAccountBalance c acct amt feeStr seq ticketSeq tr =
     (let tr1 = tr @ [AccountInfo acct] in
      case request_account_info c tr acct of
        Inl e \<Rightarrow> (None, tr1)
      | Inr info \<Rightarrow>
          (case BigInt (Balance info) of
             None \<Rightarrow> (None, tr1)
           | Some balance \<Rightarrow>
               (case BigInt feeStr of
                  None \<Rightarrow> (None, tr1)
                | Some feeDrops \<Rightarrow>
                    (let reserve = 10000000;
                         sequenceCheck =
                           (case ticketSeq of
                              Some t \<Rightarrow>
                                (let tr2 = tr1 @ [AccountObjects acct] in
                                 case request_account_objects c tr1 acct of
                                   Inl e \<Rightarrow> (None, tr2)
                                 | Inr objs \<Rightarrow>
                                     if list_ex (\<lambda>obj. hasProp obj ''TicketSequence'' \<and>
                                           getProp obj ''TicketSequence'' = JNum t) objs
                                     then (None, tr2)
                                     else (Some (invalid ''ticket_not_found''), tr2))
                            | None \<Rightarrow>
                                if seq \<noteq> Sequence info then
                                  (Some (invalid ''invalid_sequence''), tr1)
                                else (None, tr1))
                     in
                     if \<not> isIssuedCurrencyAmount amt then
                       (case (case amt of AStr s \<Rightarrow> BigInt s | AObj fs \<Rightarrow> None) of
                          None \<Rightarrow> (None, tr1)
                        | Some amountDrops \<Rightarrow>
                            if balance < amountDrops + feeDrops + reserve then
                              (Some (invalid ''insufficient_balance''), tr1)
                            else sequenceCheck)
                     else if balance < feeDrops + reserve then
                       (Some (invalid ''insufficient_balance_for_fees''), tr1)
                     else sequenceCheck))))"

text \<open>Step 10: expiry, with a buffer of four ledgers.\<close>

definition checkLedgerExpiry ::
    "client \<Rightarrow> int option \<Rightarrow> call list \<Rightarrow> VerifyResponse option \<times> call list" where
  "checkLedgerExpiry c lastLedger tr =
     (case lastLedger of
        None \<Rightarrow> (None, tr)
      | Some l \<Rightarrow>
          (case getLedgerIndex c tr of
             Inl e \<Rightarrow> (None, tr @ [GetLedgerIndex])
           | Inr currentLedger \<Rightarrow>
               if l < currentLedger + 4 then
                 (Some (invalid ''transaction_will_expire_too_soon''), tr @ [GetLedgerIndex])
               else (None, tr @ [GetLedgerIndex])))"

text \<open>Step 11: the destination's trust line to the issuer.\<close>

definition checkTrustLine ::
    "env \<Rightarrow> client \<Rightarrow> string \<Rightarrow> amount \<Rightarrow> call list \<Rightarrow>
     VerifyResponse option \<times> call list" where
  "checkTrustLine env c dest amt tr =
     (let tr1 = tr @ [AccountLines dest (amountField amt ''issuer'')] in
      case request_account_lines c tr dest (amountField amt ''issuer'') of
        Inl e \<Rightarrow> (None, tr1)
      | Inr lines \<Rightarrow>
          (case find (\<lambda>line. JStr (currency line) = amountField amt ''currency'') lines of
             None \<Rightarrow> (Some (invalid ''no_trust_line''), tr1)
           | Some trustLine \<Rightarrow>
               if number_le (parseFloat env (limit trustLine)) (Some (Finite 0)) then
                 (Some (invalid ''trust_line_limit_zero''), tr1)
               else if freeze_peer trustLine = Some True then
                 (Some (invalid ''trust_line_frozen''), tr1)
               else (None, tr1)))"

text \<open>The \<open>Flags\<close> of a ledger node as a 32-bit value, \<open>0\<close> when it is not a number.\<close>

definition nodeFlags :: "jsobj \<Rightarrow> 32 word" where
  "nodeFlags node = word_of_int (case getProp node ''Flags'' of JNum n \<Rightarrow> n | _ \<Rightarrow> 0)"

text \<open>Step 13: the issuance exists and can be transferred.\<close>

definition checkMptIssuance ::
    "client \<Rightarrow> jsval \<Rightarrow> call list \<Rightarrow> VerifyResponse option \<times> call list" where
  "checkMptIssuance c ident tr =
     (let tr1 = tr @ [LedgerEntryIssuance ident] in
      case request_ledger_entry c tr (LedgerEntryIssuance ident) of
        Inl e \<Rightarrow> (None, tr1)
      | Inr None \<Rightarrow> (Some (invalid ''mpt_issuance_not_found''), tr1)
      | Inr (Some node) \<Rightarrow>
          if nodeFlags node AND tfMPTCanTransfer = 0 then
            (Some (invalid ''mpt_not_transferable''), tr1)
          else (None, tr1))"

text \<open>Step 14: the sender holds the token, unlocked, with enough balance.\<close>

definition checkMptHolder ::
    "env \<Rightarrow> client \<Rightarrow> string \<Rightarrow> amount \<Rightarrow> call list \<Rightarrow>
     VerifyResponse option \<times> call list" where
  "checkMptHolder env c acct mptAmount tr =
     (let q = LedgerEntryMPToken (amountField mptAmount ''mpt_issuance_id'') acct;
          tr1 = tr @ [q]
      in
      case request_ledger_entry c tr q of
        Inl e \<Rightarrow> (None, tr1)
      | Inr None \<Rightarrow> (Some (invalid ''mpt_holder_not_authorized''), tr1)
      | Inr (Some node) \<Rightarrow>
          if nodeFlags node AND 1 \<noteq> 0 then (Some (invalid ''mpt_holder_locked''), tr1)
          else
            (let balance =
                   (case getProp node ''MPTAmount'' of
                      JStr s \<Rightarrow> parseFloat env s
                    | _ \<Rightarrow> Some (Finite 0));
                 required = parseFloat env (js_String (amountField mptAmount ''value''))
             in if number_less balance required then
                  (Some (invalid ''mpt_insufficient_balance''), tr1)
                else (None, tr1)))"

text \<open>Step 15: the destination holds an unlocked entry for the token.\<close>

definition checkMptDestination ::
    "client \<Rightarrow> string \<Rightarrow> jsval \<Rightarrow> call list \<Rightarrow> VerifyResponse option \<times> call list" where
  "checkMptDestination c dest ident tr =
     (let tr1 = tr @ [LedgerEntryMPToken ident dest] in
      case request_ledger_entry c tr (LedgerEntryMPToken ident dest) of
        Inl e \<Rightarrow> (None, tr1)
      | Inr None \<Rightarrow> (Some (invalid ''mpt_destination_not_authorized''), tr1)
      | Inr (Some node) \<Rightarrow>
          if nodeFlags node AND 1 \<noteq> 0 then (Some (invalid ''mpt_destination_locked''), tr1)
          else (None, tr1))"

section \<open>The verification pipeline (facilitator/verify.ts)\<close>

text \<open>The block of \<open>verify\<close> that runs when a client is given: steps 9-11 and 13-15.\<close>

definition verifyNetwork ::
    "env \<Rightarrow> client \<Rightarrow> ExactXrplPayload \<Rightarrow> call list \<Rightarrow> VerifyResponse \<times> call list" where
  "verifyNetwork env c payload tr =
     (let auth = authorization payload in
      case checkAccountBalance c (account auth) (amount auth) (fee auth) (sequence auth)
             (ticketSequence auth) tr of
        (Some r, tr9) \<Rightarrow> (r, tr9)
      | (None, tr9) \<Rightarrow>
      (case checkLedgerExpiry c (lastLedgerSequence auth) tr9 of
        (Some r, tr10) \<Rightarrow> (r, tr10)
      | (None, tr10) \<Rightarrow>
      (case (if isIssuedCurrencyAmount (amount auth)
             then checkTrustLine env c (destination auth) (amount auth) tr10
             else (None, tr10)) of
        (Some r, tr11) \<Rightarrow> (r, tr11)
      | (None, tr11) \<Rightarrow>
          if isMPTAmount (amount auth) then
            (let ident = amountField (amount auth) ''mpt_issuance_id'' in
             case checkMptIssuance c ident tr11 of
               (Some r, tr13) \<Rightarrow> (r, tr13)
             | (None, tr13) \<Rightarrow>
             (case checkMptHolder env c (account auth) (amount auth) tr13 of
               (Some r, tr14) \<Rightarrow> (r, tr14)
             | (None, tr14) \<Rightarrow>
             (case checkMptDestination c (destination auth) ident tr14 of
               (Some r, tr15) \<Rightarrow> (r, tr15)
             | (None, tr15) \<Rightarrow> (valid, tr15))))
          else (valid, tr11))))"

text \<open>
  \<open>verify\<close>: each step in turn, returning at the first failure.  The throws that can
  leave it are those of \<open>checkAsset\<close> and of \<open>checkMptAllowlist\<close>.
\<close>

definition verify ::
    "env \<Rightarrow> ExactXrplPayload \<Rightarrow> PaymentRequirements \<Rightarrow> client option \<Rightarrow> call list \<Rightarrow>
     (js_error + VerifyResponse) \<times> call list" where
  "verify env payload requirements cl tr =
     (case decodeTxBlob env (txBlob payload) of
        Inl r \<Rightarrow> (Inr r, tr)
      | Inr tx \<Rightarrow>
      (case validateTransaction env tx of
        Some r \<Rightarrow> (Inr r, tr)
      | None \<Rightarrow>
      (case verifyTxSignature env (txBlob payload) of
        Some r \<Rightarrow> (Inr r, tr)
      | None \<Rightarrow>
      (case crossCheckAuthorization env tx payload of
        Some r \<Rightarrow> (Inr r, tr)
      | None \<Rightarrow>
      (case checkDestination payload requirements of
        Some r \<Rightarrow> (Inr r, tr)
      | None \<Rightarrow>
      (case checkAmount env payload requirements of
        Some r \<Rightarrow> (Inr r, tr)
      | None \<Rightarrow>
      (case checkAsset payload requirements of
        Inl e \<Rightarrow> (Inl e, tr)
      | Inr (Some r) \<Rightarrow> (Inr r, tr)
      | Inr None \<Rightarrow>
      (case rejectPartialPayment tx of
        Some r \<Rightarrow> (Inr r, tr)
      | None \<Rightarrow>
      (case (if isMPTAmount (amount (authorization payload))
             then checkMptAllowlist env (req_network requirements)
                    (amount (authorization payload))
             else Inr None) of
        Inl e \<Rightarrow> (Inl e, tr)
      | Inr (Some r) \<Rightarrow> (Inr r, tr)
      | Inr None \<Rightarrow>
      (case cl of
        None \<Rightarrow> (Inr valid, tr)
      | Some c \<Rightarrow>
          (case verifyNetwork env c payload tr of (r, tr') \<Rightarrow> (Inr r, tr'))))))))))))"

section \<open>Settlement (facilitator/settle.ts)\<close>

definition engineResultMap :: "(string \<times> string) list" where
  "engineResultMap =
     [(''tecPATH_DRY'', ''destination_cannot_receive_asset''),
      (''tecUNFUNDED_PAYMENT'', ''insufficient_funds''),
      (''tecNO_DST'', ''destination_account_not_found''),
      (''tecNO_DST_INSUF_XRP'', ''destination_below_reserve''),
      (''tecFROZEN'', ''asset_frozen''),
      (''tefPAST_SEQ'', ''transaction_expired_sequence''),
      (''tefMAX_LEDGER'', ''transaction_expired_ledger''),
      (''tefALREADY'', ''transaction_already_applied''),
      (''temBAD_AMOUNT'', ''invalid_amount''),
      (''temBAD_FEE'', ''invalid_fee''),
      (''temDST_IS_SRC'', ''destination_is_source''),
      (''tecMPTOKEN_NOT_AUTHORIZED'', ''mpt_not_authorized''),
      (''tecMPT_NOT_ENABLED'', ''mpt_not_enabled''),
      (''tecMPT_LOCKED'', ''mpt_locked''),
      (''tecMPT_MAX_AMOUNT_EXCEEDED'', ''mpt_max_amount_exceeded'')]"

text \<open>
  \<open>map[engineResult] ?? ...\<close> on the codes of the ledger, all of which start with
  \<open>te\<close>; a code named like an inherited property of the table is no ledger code.
\<close>

definition mapEngineResult :: "string \<Rightarrow> string" where
  "mapEngineResult engineResult =
     (case map_of engineResultMap engineResult of
        Some r \<Rightarrow> r
      | None \<Rightarrow> ''settlement_failed: '' @ engineResult)"

definition failure :: "string \<Rightarrow> string option \<Rightarrow> string \<Rightarrow> SettleResponse" where
  "failure reason txid net =
     \<lparr>success = False, transaction = txid, network = Some net, payer = None,
      errorReason = Some reason\<rparr>"

text \<open>
  The polling loop of \<open>submitAndWait\<close>, by the number of attempts left.  A query that
  throws, or a transaction not yet validated, goes to the next attempt; the wait between
  attempts has no effect on the result.
\<close>

fun pollTx :: "client \<Rightarrow> string \<Rightarrow> nat \<Rightarrow> call list \<Rightarrow> SettleResponse \<times> call list" where
  "pollTx c txHash 0 tr = (failure ''settlement_timeout'' (Some txHash) [], tr)"
| "pollTx c txHash (Suc n) tr =
     (case request_tx c tr txHash of
        Inl e \<Rightarrow> pollTx c txHash n (tr @ [Tx txHash])
      | Inr txResult \<Rightarrow>
          if validated txResult then
            (if TransactionResult txResult = Some ''tesSUCCESS'' then
               (\<lparr>success = True, transaction = Some txHash, network = Some [],
                 payer = Account txResult, errorReason = None\<rparr>, tr @ [Tx txHash])
             else
               (failure
                  (case TransactionResult txResult of
                     None \<Rightarrow> ''settlement_failed''
                   | Some finalResult \<Rightarrow>
                       if finalResult = [] then ''settlement_failed''
                       else mapEngineResult finalResult)
                  (Some txHash) [], tr @ [Tx txHash]))
          else pollTx c txHash n (tr @ [Tx txHash]))"

text \<open>\<open>submitAndWait\<close>: the throw of \<open>client.submit\<close> is not caught here.\<close>

definition submitAndWait ::
    "client \<Rightarrow> string \<Rightarrow> nat \<Rightarrow> call list \<Rightarrow> (js_error + SettleResponse) \<times> call list" where
  "submitAndWait c blob maxAttempts tr =
     (let tr1 = tr @ [Submit blob] in
      case submit c tr blob of
        Inl e \<Rightarrow> (Inl e, tr1)
      | Inr submitResult \<Rightarrow>
          (let engineResult = engine_result submitResult;
               txHash = hash submitResult;
               hashOrEmpty = (case txHash of None \<Rightarrow> [] | Some h \<Rightarrow> h)
           in
           if startsWith engineResult ''tef'' \<or> startsWith engineResult ''tem'' then
             (Inr (failure (mapEngineResult engineResult) (Some hashOrEmpty) []), tr1)
           else if startsWith engineResult ''tec'' then
             (Inr (failure (mapEngineResult engineResult) (Some hashOrEmpty) []), tr1)
           else if \<not> truthy txHash then
             (Inr (failure ''no_transaction_hash'' None []), tr1)
           else
             (case pollTx c hashOrEmpty maxAttempts tr1 of (r, tr2) \<Rightarrow> (Inr r, tr2))))"

section \<open>Fee verification and two-phase settlement (facilitator/fee.ts)\<close>

definition verifyFeePayload ::
    "env \<Rightarrow> ExactXrplPayload \<Rightarrow> string option \<Rightarrow> VerifyResponse option" where
  "verifyFeePayload env payload expectedFeeAmount =
     (case expectedFeeAmount of
        None \<Rightarrow> None
      | Some expected \<Rightarrow>
          if expected = ''0'' then None
          else if \<not> truthy (FACILITATOR_ADDRESS env) then
            (if \<not> truthy (feeTxBlob payload) \<and> feeAuthorization payload = None then None
             else Some (invalid ''fee_facilitator_not_configured''))
          else
            (case (feeTxBlob payload, feeAuthorization payload) of
               (Some feeBlob, Some feeAuth) \<Rightarrow>
                 if feeBlob = [] then Some (invalid ''fee_payment_required'')
                 else
                   (case decode env feeBlob of
                      Inl e \<Rightarrow> Some (invalid ''fee_invalid_tx_blob'')
                    | Inr feeTx \<Rightarrow>
                        (case verifySignature env feeBlob of
                           Inl e \<Rightarrow> Some (invalid ''fee_signature_verification_failed'')
                         | Inr ok \<Rightarrow>
                             if \<not> ok then Some (invalid ''fee_invalid_signature'')
                             else if getProp feeTx ''Account'' \<noteq> JStr (fee_account feeAuth) then
                               Some (invalid ''fee_authorization_mismatch_account'')
                             else if getProp feeTx ''Destination'' \<noteq>
                                       JStr (fee_destination feeAuth) then
                               Some (invalid ''fee_authorization_mismatch_destination'')
                             else if getProp feeTx ''Amount'' \<noteq> JStr (fee_amount feeAuth) then
                               Some (invalid ''fee_authorization_mismatch_amount'')
                             else if Some (fee_destination feeAuth) \<noteq> FACILITATOR_ADDRESS env then
                               Some (invalid ''fee_wrong_destination'')
                             else if fee_amount feeAuth \<noteq> expected then
                               Some (invalid ''fee_wrong_amount'')
                             else if fee_account feeAuth \<noteq> account (authorization payload) then
                               Some (invalid ''fee_payer_mismatch'')
                             else None))
             | _ \<Rightarrow> Some (invalid ''fee_payment_required'')))"

text \<open>
  \<open>settleWithFee\<close>: the fee blob goes through \<open>submitAndWait\<close> only when the merchant
  result is a success; a failed or throwing fee settlement is logged to the console (not
  modelled) and the merchant result is returned.
\<close>

definition settleWithFee ::
    "client \<Rightarrow> SettleResponse \<Rightarrow> string \<Rightarrow> string \<Rightarrow> call list \<Rightarrow>
     SettleResponse \<times> call list" where
  "settleWithFee c merchantResult feeBlob net tr =
     (if \<not> success merchantResult then (merchantResult, tr)
      else
        (case submitAndWait c feeBlob 10 tr of
           (feeResult, tr') \<Rightarrow> (merchantResult, tr')))"

text \<open>
  \<open>settle\<close> (facilitator/settle.ts): verify again with the client, check the fee payload
  for an MPT amount, submit the payment and, when it succeeded and a fee blob is present,
  the fee.  A throw of \<open>verify\<close> leaves \<open>settle\<close>; a throw of \<open>submitAndWait\<close> is caught.
\<close>

definition settle ::
    "env \<Rightarrow> ExactXrplPayload \<Rightarrow> PaymentRequirements \<Rightarrow> client \<Rightarrow> string \<Rightarrow> call list \<Rightarrow>
     (js_error + SettleResponse) \<times> call list" where
  "settle env payload requirements c net tr =
     (case verify env payload requirements (Some c) tr of
        (Inl e, tr1) \<Rightarrow> (Inl e, tr1)
      | (Inr verifyResult, tr1) \<Rightarrow>
          if \<not> isValid verifyResult then
            (Inr \<lparr>success = False, transaction = None, network = Some net, payer = None,
                  errorReason =
                    Some (case invalidReason verifyResult of
                            Some r \<Rightarrow> r
                          | None \<Rightarrow> ''verification_failed'')\<rparr>, tr1)
          else
            (case (if isMPTAmount (amount (authorization payload))
                   then verifyFeePayload env payload (mpt (feeSchedule env))
                   else None) of
               Some feeCheck \<Rightarrow>
                 (Inr \<lparr>success = False, transaction = None, network = Some net, payer = None,
                       errorReason = invalidReason feeCheck\<rparr>, tr1)
             | None \<Rightarrow>
                 (case submitAndWait c (txBlob payload) 10 tr1 of
                    (Inl err, tr2) \<Rightarrow>
                      (Inr \<lparr>success = False, transaction = None, network = Some net,
                            payer = None,
                            errorReason = Some (''settlement_error: '' @ message err)\<rparr>, tr2)
                  | (Inr res, tr2) \<Rightarrow>
                      (let merchantResult = res\<lparr>network := Some net\<rparr> in
                       if truthy (feeTxBlob payload) \<and> success merchantResult then
                         (case settleWithFee c merchantResult
                                 (case feeTxBlob payload of Some b \<Rightarrow> b | None \<Rightarrow> [])
                                 net tr2 of
                            (r, tr3) \<Rightarrow> (Inr r, tr3))
                       else (Inr merchantResult, tr2)))))"

section \<open>Reference notions\<close>

text \<open>
  The first failure in a list of step outcomes taken in order: the first step that fails
  (\<open>Inr (Some r)\<close>) or throws (\<open>Inl e\<close>) decides, and there is none when every step
  passes.
\<close>

fun firstFailure ::
    "(js_error + VerifyResponse option) list \<Rightarrow> (js_error + VerifyResponse) option" where
  "firstFailure [] = None"
| "firstFailure (Inl e # rest) = Some (Inl e)"
| "firstFailure (Inr (Some r) # rest) = Some (Inr r)"
| "firstFailure (Inr None # rest) = firstFailure rest"

text \<open>
  The offline steps of \<open>verify\<close> on a decoded transaction, in the order of the
  specification: steps 2 to 8, then the allowlist check of an MPT amount.
\<close>

definition offlineSteps ::
    "env \<Rightarrow> jsobj \<Rightarrow> ExactXrplPayload \<Rightarrow> PaymentRequirements \<Rightarrow>
     (js_error + VerifyResponse option) list" where
  "offlineSteps env tx payload requirements =
     [Inr (validateTransaction env tx),
      Inr (verifyTxSignature env (txBlob payload)),
      Inr (crossCheckAuthorization env tx payload),
      Inr (checkDestination payload requirements),
      Inr (checkAmount env payload requirements),
      checkAsset payload requirements,
      Inr (rejectPartialPayment tx),
      (if isMPTAmount (amount (authorization payload))
       then checkMptAllowlist env (req_network requirements)
              (amount (authorization payload))
       else Inr None)]"

text \<open>
  An integer string: an optional sign and at least one decimal digit.  Its value is read
  by position, digit times power of ten.
\<close>

definition isIntegerString :: "string \<Rightarrow> bool" where
  "isIntegerString s =
     (case s of
        [] \<Rightarrow> False
      | c # ds \<Rightarrow>
          if c = CHR ''-'' \<or> c = CHR ''+'' then ds \<noteq> [] \<and> list_all isDigit ds
          else list_all isDigit s)"

fun decimalValue :: "string \<Rightarrow> nat" where
  "decimalValue [] = 0"
| "decimalValue (c # cs) = (of_char c - 48) * 10 ^ length cs + decimalValue cs"

definition integerValue :: "string \<Rightarrow> int" where
  "integerValue s =
     (case s of
        [] \<Rightarrow> 0
      | c # ds \<Rightarrow>
          if c = CHR ''-'' then - int (decimalValue ds)
          else if c = CHR ''+'' then int (decimalValue ds)
          else int (decimalValue s))"

text \<open>
  The number a plain decimal string denotes: digits, then optionally a point and more
  digits.  \<open>None\<close> for any other string.
\<close>

definition decimalNumber :: "string \<Rightarrow> rat option" where
  "decimalNumber s =
     (let ip = takeWhile (\<lambda>c. c \<noteq> CHR ''.'') s;
          rest = dropWhile (\<lambda>c. c \<noteq> CHR ''.'') s
      in
      if ip = [] \<or> \<not> list_all isDigit ip then None
      else
        (case rest of
           [] \<Rightarrow> Some (of_nat (decimalValue ip))
         | d # fp \<Rightarrow>
             if list_all isDigit fp then
               Some (of_nat (decimalValue ip) + of_nat (decimalValue fp) / 10 ^ length fp)
             else None))"

section \<open>Sample data\<close>

definition sampleTx :: "jsval \<Rightarrow> jsobj" where
  "sampleTx amt =
     [(''Account'', JStr ''rSender''), (''Destination'', JStr ''rReceiver''),
      (''Amount'', amt), (''Fee'', JStr ''12''), (''Sequence'', JNum 1)]"

text \<open>
  A library that knows five blobs: a signed XRP payment of 1000000 drops, the same
  payment with a bad signature, a signed issued-currency payment of 25.5, a signed MPT
  payment of 100 and a signed fee payment; it cannot decode anything else.
\<close>

definition sampleDecode :: "string \<Rightarrow> js_error + jsobj" where
  "sampleDecode b =
     (if b = ''xrp'' \<or> b = ''unsigned'' then Inr (sampleTx (JStr ''1000000''))
      else if b = ''issued'' then
        Inr (sampleTx (JObj [(''currency'', JStr ''USD''), (''issuer'', JStr ''rIssuer''),
                             (''value'', JStr ''25.5'')]))
      else if b = ''mpt'' then
        Inr (sampleTx (JObj [(''mpt_issuance_id'', JStr ''00AB''), (''value'', JStr ''100'')]))
      else if b = ''fee'' then Inr (sampleTx (JStr ''100000''))
      else Inl (Error ''cannot decode''))"

definition sampleVerifySignature :: "string \<Rightarrow> js_error + bool" where
  "sampleVerifySignature b =
     (if b = ''xrp'' \<or> b = ''issued'' \<or> b = ''mpt'' \<or> b = ''fee'' then Inr True
      else if b = ''unsigned'' then Inr False
      else Inl (Error ''cannot decode''))"

definition sampleEnv :: env where
  "sampleEnv =
     \<lparr>decode = sampleDecode, validate = (\<lambda>tx. Inr ()),
      verifySignature = sampleVerifySignature, toDouble = Finite,
      FACILITATOR_ADDRESS = None, feeSchedule = FEE_SCHEDULE,
      mptAllowlist = MPT_ALLOWLIST\<rparr>"

definition samplePayload :: "string \<Rightarrow> amount \<Rightarrow> string option \<Rightarrow> ExactXrplPayload" where
  "samplePayload blob amt feeBlob =
     \<lparr>txBlob = blob,
      authorization =
        \<lparr>account = ''rSender'', destination = ''rReceiver'', amount = amt, fee = ''12'',
         sequence = 1, ticketSequence = None, lastLedgerSequence = None\<rparr>,
      feeTxBlob = feeBlob, feeAuthorization = None\<rparr>"

definition sampleRequirements :: "string \<Rightarrow> string \<Rightarrow> PaymentRequirements" where
  "sampleRequirements amt ast =
     \<lparr>scheme = ''exact'', req_network = ''xrpl:1'', payTo = ''rReceiver'',
      maxAmountRequired = amt, asset = ast\<rparr>"

text \<open>
  An amount object with the identifying properties of both object variants, and an
  issued-currency and an MPT amount.
\<close>

definition mixedAmount :: amount where
  "mixedAmount =
     AObj [(''currency'', ''USD''), (''issuer'', ''rIssuer''), (''value'', ''25.50''),
           (''mpt_issuance_id'', ''00AB'')]"

definition issuedAmount :: "string \<Rightarrow> amount" where
  "issuedAmount v = AObj [(''currency'', ''USD''), (''issuer'', ''rIssuer''), (''value'', v)]"

definition mptAmount :: "string \<Rightarrow> amount" where
  "mptAmount v = AObj [(''mpt_issuance_id'', ''00AB''), (''value'', v)]"

text \<open>A client whose every call throws.\<close>

definition downClient :: client where
  "downClient =
     \<lparr>request_account_info = (\<lambda>tr a. Inl (Error ''disconnected'')),
      request_account_objects = (\<lambda>tr a. Inl (Error ''disconnected'')),
      request_account_lines = (\<lambda>tr a p. Inl (Error ''disconnected'')),
      request_ledger_entry = (\<lambda>tr q. Inl (Error ''disconnected'')),
      request_tx = (\<lambda>tr h. Inl (Error ''disconnected'')),
      getLedgerIndex = (\<lambda>tr. Inl (Error ''disconnected'')),
      submit = (\<lambda>tr b. Inl (Error ''disconnected''))\<rparr>"

text \<open>
  A ledger on which the sender has 100 XRP and the given next sequence number; a
  submitted blob gets the given engine result and the hash \<open>H1\<close>, except the blob
  \<open>fee\<close>, whose submission throws; every transaction looked up is validated with
  \<open>tesSUCCESS\<close>.
\<close>

definition sampleClient :: "int \<Rightarrow> string \<Rightarrow> client" where
  "sampleClient nextSeq engineResult =
     \<lparr>request_account_info = (\<lambda>tr a. Inr \<lparr>Balance = ''100000000'', Sequence = nextSeq\<rparr>),
      request_account_objects = (\<lambda>tr a. Inl (Error ''disconnected'')),
      request_account_lines = (\<lambda>tr a p. Inl (Error ''disconnected'')),
      request_ledger_entry = (\<lambda>tr q. Inl (Error ''disconnected'')),
      request_tx =
        (\<lambda>tr h. Inr \<lparr>validated = True, TransactionResult = Some ''tesSUCCESS'',
                       Account = Some ''rSender''\<rparr>),
      getLedgerIndex = (\<lambda>tr. Inl (Error ''disconnected'')),
      submit =
        (\<lambda>tr b. if b = ''fee'' then Inl (Error ''fee rejected'')
                else Inr \<lparr>engine_result = engineResult, hash = Some ''H1''\<rparr>)\<rparr>"

text \<open>
  The sample library under a schedule that charges 100000 drops for MPT payments, with a
  facilitator address configured.
\<close>

definition paidEnv :: env where
  "paidEnv =
     sampleEnv\<lparr>FACILITATOR_ADDRESS := Some ''rFacilitator'',
               feeSchedule := \<lparr>standard = None, mpt = Some ''100000'',
                                crossCurrency = Some ''0''\<rparr>\<rparr>"

section \<open>Properties\<close>

subsection \<open>Native amounts are compared as integers\<close>

lemma isDigit_cases:
  "isDigit c \<Longrightarrow> c = CHR ''0'' \<or> c = CHR ''1'' \<or> c = CHR ''2'' \<or> c = CHR ''3'' \<or> c = CHR ''4'' \<or>
     c = CHR ''5'' \<or> c = CHR ''6'' \<or> c = CHR ''7'' \<or> c = CHR ''8'' \<or> c = CHR ''9''"
  by (auto simp: isDigit_def)

lemma isDigit_digitValue: "isDigit c \<Longrightarrow> digitValue c = Some (of_char c - 48) \<and> (of_char c :: nat) - 48 < 10"
  by (drule isDigit_cases) (auto simp: digitValue_def)

lemma isDigit_not_sign: "isDigit c \<Longrightarrow> c \<noteq> CHR ''-'' \<and> c \<noteq> CHR ''+'' \<and> \<not> isWhiteSpace c \<and> c \<noteq> CHR ''x'' \<and> c \<noteq> CHR ''X''
   \<and> c \<noteq> CHR ''o'' \<and> c \<noteq> CHR ''O'' \<and> c \<noteq> CHR ''b'' \<and> c \<noteq> CHR ''B'' \<and> c \<noteq> CHR ''.'' \<and> c \<noteq> CHR ''e'' \<and> c \<noteq> CHR ''E''"
  by (drule isDigit_cases) (auto simp: isWhiteSpace_def)

lemma digitsFrom_decimal:
  "list_all isDigit ds \<Longrightarrow> digitsFrom 10 acc ds = Some (acc * 10 ^ length ds + decimalValue ds)"
proof (induction ds arbitrary: acc)
  case Nil
  then show ?case by simp
next
  case (Cons c cs)
  then have d: "digitValue c = Some (of_char c - 48)" "(of_char c :: nat) - 48 < 10" and cs: "list_all isDigit cs"
    using isDigit_digitValue by auto
  show ?case using Cons.IH [OF cs] d by (simp add: algebra_simps)
qed

lemma parseDigits_decimal:
  "ds \<noteq> [] \<Longrightarrow> list_all isDigit ds \<Longrightarrow> parseDigits 10 ds = Some (decimalValue ds)"
  by (simp add: parseDigits_def digitsFrom_decimal)

lemma trim_id:
  assumes "s \<noteq> []" "\<not> isWhiteSpace (hd s)" "\<not> isWhiteSpace (last s)"
  shows "trim s = s"
proof -
  have 1: "dropWhile isWhiteSpace s = s" using assms by (cases s) auto
  obtain ys y where s: "s = ys @ [y]" using assms(1) by (cases s rule: rev_cases) auto
  have 2: "dropWhile isWhiteSpace (rev s) = rev s" using assms(3) by (simp add: s)
  show ?thesis by (simp add: trim_def 1 2)
qed

lemma sign_not_space: "\<not> isWhiteSpace CHR ''-''" "\<not> isWhiteSpace CHR ''+''"
  by (simp_all add: isWhiteSpace_def)

lemma isIntegerString_ends:
  assumes "isIntegerString s"
  shows "s \<noteq> [] \<and> \<not> isWhiteSpace (hd s) \<and> \<not> isWhiteSpace (last s)"
proof -
  obtain c ds where s: "s = c # ds" using assms by (cases s) (auto simp: isIntegerString_def)
  show ?thesis
  proof (cases "c = CHR ''-'' \<or> c = CHR ''+''")
    case True
    then have "ds \<noteq> []" "list_all isDigit ds" using assms s by (auto simp: isIntegerString_def)
    then have "isDigit (last ds)" by (simp add: list_all_iff)
    then show ?thesis using True s \<open>ds \<noteq> []\<close> isDigit_not_sign sign_not_space by auto
  next
    case False
    then have all: "list_all isDigit s" using assms s by (auto simp: isIntegerString_def)
    then have "isDigit (hd s)" "isDigit (last s)" using s by (auto simp: list_all_iff)
    then show ?thesis using s isDigit_not_sign by blast
  qed
qed

lemma take2_not_prefix:
  assumes "s = c # ds" "ds = [] \<or> isDigit (hd ds) "
  shows "take 2 s \<noteq> ''0x'' \<and> take 2 s \<noteq> ''0X'' \<and> take 2 s \<noteq> ''0o'' \<and> take 2 s \<noteq> ''0O'' \<and>
         take 2 s \<noteq> ''0b'' \<and> take 2 s \<noteq> ''0B''"
proof (cases ds)
  case Nil
  then show ?thesis using assms by simp
next
  case (Cons d es)
  then have "isDigit d" using assms by simp
  from isDigit_not_sign [OF this] show ?thesis using assms(1) Cons by simp
qed

lemma BigInt_integerString:
  assumes "isIntegerString s"
  shows "BigInt s = Some (integerValue s)"
proof -
  from isIntegerString_ends [OF assms] have ne: "s \<noteq> []" and t: "trim s = s"
    using trim_id by blast+
  obtain c ds where s: "s = c # ds" using ne by (cases s) auto
  have ds: "ds = [] \<or> isDigit (hd ds)"
    using assms s by (cases ds) (auto simp: isIntegerString_def split: if_splits)
  note np = take2_not_prefix [OF s ds]
  have B: "BigInt s = signedInteger s"
    using np ne by (simp add: BigInt_def t Let_def)
  show ?thesis
  proof (cases "c = CHR ''-'' \<or> c = CHR ''+''")
    case True
    then have "ds \<noteq> []" "list_all isDigit ds" using assms s by (auto simp: isIntegerString_def)
    then have "parseDigits 10 ds = Some (decimalValue ds)" by (rule parseDigits_decimal)
    then show ?thesis using True unfolding s B [unfolded s] signedInteger_def integerValue_def
      by auto
  next
    case False
    then have all: "list_all isDigit s" using assms s by (auto simp: isIntegerString_def)
    have pd: "parseDigits 10 s = Some (decimalValue s)" using ne all by (rule parseDigits_decimal)
    show ?thesis using False pd unfolding s B [unfolded s] signedInteger_def integerValue_def
      by simp
  qed
qed

text \<open>
  C4.  For a native amount, \<open>checkAmount\<close> compares the two integer strings as exact
  integers: it fails with \<open>insufficient_amount\<close> exactly when the payment is below the
  requirement, and passes otherwise.
\<close>

theorem checkAmount_native_exact:
  assumes "amount (authorization payload) = AStr a"
    and "isIntegerString a"
    and "isIntegerString (maxAmountRequired requirements)"
  shows "checkAmount env payload requirements =
           (if integerValue a < integerValue (maxAmountRequired requirements)
            then Some (invalid ''insufficient_amount'') else None)"
  using assms by (simp add: checkAmount_def BigInt_integerString)

theorem checkAmount_native_exact_witness:
  "checkAmount sampleEnv (samplePayload ''xrp'' (AStr ''999999'') None)
       (sampleRequirements ''1000000'' ''XRP'') = Some (invalid ''insufficient_amount'') \<and>
   checkAmount sampleEnv (samplePayload ''xrp'' (AStr ''1000000'') None)
       (sampleRequirements ''1000000'' ''XRP'') = None \<and>
   checkAmount sampleEnv (samplePayload ''xrp'' (AStr ''9007199254740992'') None)
       (sampleRequirements ''9007199254740993'' ''XRP'') = Some (invalid ''insufficient_amount'') \<and>
   checkAmount sampleEnv (samplePayload ''xrp'' (AStr ''9007199254740993'') None)
       (sampleRequirements ''9007199254740992'' ''XRP'') = None"
  using
    checkAmount_native_exact [of "samplePayload ''xrp'' (AStr ''999999'') None" "''999999''"
      "sampleRequirements ''1000000'' ''XRP''" sampleEnv]
    checkAmount_native_exact [of "samplePayload ''xrp'' (AStr ''1000000'') None" "''1000000''"
      "sampleRequirements ''1000000'' ''XRP''" sampleEnv]
    checkAmount_native_exact [of "samplePayload ''xrp'' (AStr ''9007199254740992'') None"
      "''9007199254740992''" "sampleRequirements ''9007199254740993'' ''XRP''" sampleEnv]
    checkAmount_native_exact [of "samplePayload ''xrp'' (AStr ''9007199254740993'') None"
      "''9007199254740993''" "sampleRequirements ''9007199254740992'' ''XRP''" sampleEnv]
  by (simp add: samplePayload_def sampleRequirements_def isIntegerString_def isDigit_def
      integerValue_def)

subsection \<open>Evaluating the sample data\<close>

lemma samplePayload_sel [simp]:
  "txBlob (samplePayload b a f) = b"
  "feeTxBlob (samplePayload b a f) = f"
  "feeAuthorization (samplePayload b a f) = None"
  "account (authorization (samplePayload b a f)) = ''rSender''"
  "destination (authorization (samplePayload b a f)) = ''rReceiver''"
  "amount (authorization (samplePayload b a f)) = a"
  "fee (authorization (samplePayload b a f)) = ''12''"
  "sequence (authorization (samplePayload b a f)) = 1"
  "ticketSequence (authorization (samplePayload b a f)) = None"
  "lastLedgerSequence (authorization (samplePayload b a f)) = None"
  by (simp_all add: samplePayload_def)

lemma sampleRequirements_sel [simp]:
  "payTo (sampleRequirements m a) = ''rReceiver''"
  "maxAmountRequired (sampleRequirements m a) = m"
  "asset (sampleRequirements m a) = a"
  "req_network (sampleRequirements m a) = ''xrpl:1''"
  by (simp_all add: sampleRequirements_def)

lemma sampleTx_props [simp]:
  "getProp (sampleTx amt) ''Account'' = JStr ''rSender''"
  "getProp (sampleTx amt) ''Destination'' = JStr ''rReceiver''"
  "getProp (sampleTx amt) ''Amount'' = amt"
  "getProp (sampleTx amt) ''Fee'' = JStr ''12''"
  "getProp (sampleTx amt) ''Sequence'' = JNum 1"
  "getProp (sampleTx amt) ''Flags'' = JUndefined"
  by (simp_all add: sampleTx_def getProp_def)

lemma BigInt_samples [simp]:
  "BigInt ''1000000'' = Some 1000000"
  "BigInt ''999999'' = Some 999999"
  "BigInt ''12'' = Some 12"
  "BigInt ''100000000'' = Some 100000000"
  by (simp_all add: BigInt_integerString isIntegerString_def isDigit_def integerValue_def)

subsection \<open>The order of the offline steps\<close>

lemma verify_firstFailure:
  "verify env payload requirements cl tr =
     (case decodeTxBlob env (txBlob payload) of
        Inl r \<Rightarrow> (Inr r, tr)
      | Inr tx \<Rightarrow>
          (case firstFailure (offlineSteps env tx payload requirements) of
             Some res \<Rightarrow> (res, tr)
           | None \<Rightarrow>
               (case cl of
                  None \<Rightarrow> (Inr valid, tr)
                | Some c \<Rightarrow>
                    (case verifyNetwork env c payload tr of (v, tr') \<Rightarrow> (Inr v, tr')))))"
  by (simp add: verify_def offlineSteps_def split: sum.splits option.splits)

lemma verifyTxSignature_reasons:
  "verifyTxSignature env b = Some r \<Longrightarrow>
     r = invalid ''invalid_signature'' \<or> r = invalid ''signature_verification_failed''"
  unfolding verifyTxSignature_def
  by (cases "verifySignature env b") (auto split: if_splits)

subsection \<open>An asset string of unknown format\<close>

text \<open>
  C2.  The asset step does not return a failure for an asset string that is not
  \<open>XRP\<close> and starts neither with \<open>r\<close> nor with \<open>mpt:\<close>: \<open>classifyAsset\<close> throws,
  nothing catches the throw, and it leaves \<open>checkAsset\<close> and \<open>verify\<close>.
\<close>

theorem checkAsset_unknown_asset_throws:
  "checkAsset (samplePayload ''xrp'' (AStr ''1000000'') None)
       (sampleRequirements ''1000000'' ''USD'') = Inl (Error ''Unknown asset format: USD'') \<and>
   verify sampleEnv (samplePayload ''xrp'' (AStr ''1000000'') None)
       (sampleRequirements ''1000000'' ''USD'') None [] =
     (Inl (Error ''Unknown asset format: USD''), [])"
proof -
  let ?p = "samplePayload ''xrp'' (AStr ''1000000'') None"
  let ?r = "sampleRequirements ''1000000'' ''USD''"
  have 1: "decodeTxBlob sampleEnv ''xrp'' = Inr (sampleTx (JStr ''1000000''))"
    by (simp add: decodeTxBlob_def sampleEnv_def sampleDecode_def)
  have 2: "validateTransaction sampleEnv (sampleTx (JStr ''1000000'')) = None"
    by (simp add: validateTransaction_def sampleEnv_def)
  have 3: "verifyTxSignature sampleEnv ''xrp'' = None"
    by (simp add: verifyTxSignature_def sampleEnv_def sampleVerifySignature_def)
  have 4: "crossCheckAuthorization sampleEnv (sampleTx (JStr ''1000000'')) ?p = None"
    by (simp add: crossCheckAuthorization_def)
  have 5: "checkDestination ?p ?r = None"
    by (simp add: checkDestination_def)
  have 6: "checkAmount sampleEnv ?p ?r = None"
    by (simp add: checkAmount_def)
  have 7: "checkAsset ?p ?r = Inl (Error ''Unknown asset format: USD'')"
    by (simp add: checkAsset_def classifyAsset_def startsWith_def)
  show ?thesis
    by (simp add: verify_def 1 2 3 4 5 6 7)
qed

subsection \<open>parseFloat on plain decimal strings\<close>

lemma digitsVal_foldl:
  "foldl (\<lambda>a c. 10 * a + (of_char c - 48)) acc ds = acc * 10 ^ length ds + decimalValue ds"
  by (induction ds arbitrary: acc) (simp_all add: algebra_simps)

lemma digitsVal_decimalValue: "digitsVal ds = decimalValue ds"
  by (simp add: digitsVal_def digitsVal_foldl)

lemma decimalValue_append:
  "decimalValue (xs @ ys) = decimalValue xs * 10 ^ length ys + decimalValue ys"
  by (induction xs) (simp_all add: algebra_simps power_add)

lemma takeWhile_all: "list_all P xs \<Longrightarrow> takeWhile P xs = xs"
  by (induction xs) auto

lemma dropWhile_all: "list_all P xs \<Longrightarrow> dropWhile P xs = []"
  by (induction xs) auto

lemma digits_then:
  assumes "list_all isDigit ip" "rest = [] \<or> \<not> isDigit (hd rest)"
  shows "takeWhile isDigit (ip @ rest) = ip \<and> dropWhile isDigit (ip @ rest) = rest"
proof -
  have 1: "takeWhile isDigit rest = []" "dropWhile isDigit rest = rest"
    using assms(2) by (cases rest; auto)+
  have 2: "\<forall>x\<in>set ip. isDigit x" using assms(1) by (simp add: list_all_iff)
  show ?thesis using 1 2 by (simp add: takeWhile_append2 dropWhile_append2)
qed

lemma decimalLiteral_digits:
  assumes ip: "ip \<noteq> []" "list_all isDigit ip"
    and rest: "rest = [] \<or> (\<exists>fp. rest = CHR ''.'' # fp \<and> list_all isDigit fp)"
  shows "decimalLiteral (ip @ rest) =
           Some (Inr (of_nat (decimalValue ip) +
                      of_nat (decimalValue (tl rest)) / 10 ^ length (tl rest)))"
proof -
  obtain c cs where c: "ip = c # cs" "isDigit c" using ip by (cases ip) auto
  from isDigit_not_sign [OF c(2)]
  have hd: "\<not> isWhiteSpace c" "c \<noteq> CHR ''-''" "c \<noteq> CHR ''+''" by auto
  have "c \<noteq> CHR ''I''" using c(2) by (auto simp: isDigit_def)
  then have inf: "take 8 (ip @ rest) \<noteq> ''Infinity''" using c(1) by simp
  have sg: "signOf (dropWhile isWhiteSpace (ip @ rest)) = (False, ip @ rest)"
    using hd c(1) by (simp add: signOf_def)
  have nd: "rest = [] \<or> \<not> isDigit (hd rest)"
    using rest by (auto simp: isDigit_def)
  note sp = digits_then [OF ip(2) nd]
  have "list_all isDigit (tl rest)" using rest by auto
  then have tk: "takeWhile isDigit (tl rest) = tl rest" "dropWhile isDigit (tl rest) = []"
    by (simp_all add: takeWhile_all dropWhile_all)
  have dot: "(rest \<noteq> [] \<and> hd rest = CHR ''.'') = (rest \<noteq> [])"
    using rest by auto
  have val: "(of_nat (decimalValue (ip @ tl rest)) :: rat) / 10 ^ length (tl rest) =
            of_nat (decimalValue ip) + of_nat (decimalValue (tl rest)) / 10 ^ length (tl rest)"
    by (simp add: decimalValue_append add_divide_distrib)
  have ex: "exponentPart [] = 0" by (simp add: exponentPart_def)
  have p0: "pow10 0 = 1" by (simp add: pow10_def)
  have "decimalLiteral (ip @ rest) =
          Some (Inr (of_nat (digitsVal (ip @ tl rest)) / 10 ^ length (tl rest)))"
    unfolding decimalLiteral_def sg
    using inf ip(1) by (simp add: sp dot tk ex p0 Let_def)
  then show ?thesis unfolding digitsVal_decimalValue val .
qed

lemma decimalNumber_SomeD:
  assumes "decimalNumber s = Some q"
  shows "\<exists>ip rest. s = ip @ rest \<and> ip \<noteq> [] \<and> list_all isDigit ip \<and>
           (rest = [] \<or> (\<exists>fp. rest = CHR ''.'' # fp \<and> list_all isDigit fp)) \<and>
           q = of_nat (decimalValue ip) + of_nat (decimalValue (tl rest)) / 10 ^ length (tl rest)"
proof -
  define ip where "ip = takeWhile (\<lambda>c. c \<noteq> CHR ''.'') s"
  define rest where "rest = dropWhile (\<lambda>c. c \<noteq> CHR ''.'') s"
  have s: "s = ip @ rest" by (simp add: ip_def rest_def)
  have dn: "decimalNumber s =
     (if ip = [] \<or> \<not> list_all isDigit ip then None
      else
        (case rest of
           [] \<Rightarrow> Some (of_nat (decimalValue ip))
         | d # fp \<Rightarrow>
             if list_all isDigit fp then
               Some (of_nat (decimalValue ip) + of_nat (decimalValue fp) / 10 ^ length fp)
             else None))"
    unfolding decimalNumber_def Let_def ip_def rest_def by (rule refl)
  have ip: "ip \<noteq> []" "list_all isDigit ip"
    using assms unfolding dn by (simp_all split: if_splits)
  have hdr: "rest \<noteq> [] \<Longrightarrow> hd rest = CHR ''.''"
    unfolding rest_def using hd_dropWhile [of "\<lambda>c. c \<noteq> CHR ''.''" s] by blast
  show ?thesis
  proof (cases rest)
    case Nil
    then have "q = of_nat (decimalValue ip)" using assms ip unfolding dn by simp
    then show ?thesis using s ip Nil by (intro exI [of _ ip] exI [of _ rest]) simp
  next
    case (Cons d fp)
    then have d: "d = CHR ''.''" using hdr by simp
    have fp: "list_all isDigit fp"
      using assms ip Cons unfolding dn by (simp split: if_splits)
    have "q = of_nat (decimalValue ip) + of_nat (decimalValue fp) / 10 ^ length fp"
      using assms ip Cons fp unfolding dn by simp
    then show ?thesis using s ip Cons d fp by (intro exI [of _ ip] exI [of _ rest]) simp
  qed
qed

lemma parseFloat_decimalNumber:
  assumes "decimalNumber s = Some q"
  shows "parseFloat env s = Some (toDouble env q)"
proof -
  from decimalNumber_SomeD [OF assms] obtain ip rest where
    s: "s = ip @ rest" and ip: "ip \<noteq> []" "list_all isDigit ip"
    and rest: "rest = [] \<or> (\<exists>fp. rest = CHR ''.'' # fp \<and> list_all isDigit fp)"
    and q: "q = of_nat (decimalValue ip) + of_nat (decimalValue (tl rest)) / 10 ^ length (tl rest)"
    by blast
  have "decimalLiteral s = Some (Inr q)"
    unfolding q s by (rule decimalLiteral_digits [OF ip rest])
  then show ?thesis by (simp add: parseFloat_def)
qed

subsection \<open>Issued-currency and MPT amounts are compared by value\<close>

lemma invalid_eq [simp]: "invalid a = invalid b \<longleftrightarrow> a = b"
  by (simp add: invalid_def)

lemma double_less_irrefl [simp]: "\<not> double_less d d"
  by (cases d) simp_all

lemma decimalNumber_samples [simp]:
  "decimalNumber ''25.50'' = Some (51 / 2)"
  "decimalNumber ''25.5'' = Some (51 / 2)"
  "decimalNumber ''100'' = Some 100"
  "decimalNumber ''100.0'' = Some 100"
  by (simp_all add: decimalNumber_def isDigit_def)

lemma sample_amounts [simp]:
  "isIssuedCurrencyAmount (issuedAmount v)"
  "\<not> isMPTAmount (issuedAmount v)"
  "amountField (issuedAmount v) ''value'' = JStr v"
  "amountField (issuedAmount v) ''currency'' = JStr ''USD''"
  "amountField (issuedAmount v) ''issuer'' = JStr ''rIssuer''"
  "isMPTAmount (mptAmount v)"
  "\<not> isIssuedCurrencyAmount (mptAmount v)"
  "amountField (mptAmount v) ''value'' = JStr v"
  "amountField (mptAmount v) ''mpt_issuance_id'' = JStr ''00AB''"
  "isIssuedCurrencyAmount mixedAmount"
  "\<not> isMPTAmount mixedAmount"
  "amountField mixedAmount ''value'' = JStr ''25.50''"
  "amountField mixedAmount ''currency'' = JStr ''USD''"
  "amountField mixedAmount ''issuer'' = JStr ''rIssuer''"
  by (simp_all add: issuedAmount_def mptAmount_def mixedAmount_def hasField_def)

lemma toDouble_sampleEnv [simp]: "toDouble sampleEnv = Finite"
  by (simp add: sampleEnv_def)

lemma decimalNumber_more_samples [simp]:
  "decimalNumber ''25.49'' = Some (2549 / 100)"
  "decimalNumber ''50'' = Some 50"
  "decimalNumber ''26'' = Some 26"
  by (simp_all add: decimalNumber_def isDigit_def)

lemma parseFloat_abc: "parseFloat env ''abc'' = None"
  by (simp add: parseFloat_def decimalLiteral_def signOf_def isWhiteSpace_def isDigit_def)

lemma checkAmount_decimal:
  assumes "isIssuedCurrencyAmount (amount (authorization payload)) \<or>
           isMPTAmount (amount (authorization payload))"
    and "amountField (amount (authorization payload)) ''value'' = JStr v"
  shows "checkAmount env payload requirements =
           (if parseFloat env v = None \<or>
               parseFloat env (maxAmountRequired requirements) = None \<or>
               number_less (parseFloat env v) (parseFloat env (maxAmountRequired requirements))
            then Some (invalid ''insufficient_amount'') else None)"
  using assms(1) by (auto simp: checkAmount_def Let_def assms(2))

lemma crossCheck_amount_decimal:
  assumes "isIssuedCurrencyAmount (amount (authorization payload)) \<or>
           isMPTAmount (amount (authorization payload))"
    and "amountField (amount (authorization payload)) ''value'' = JStr v"
    and "getProp tx ''Amount'' = JObj obj" and "getProp obj ''value'' = JStr w"
    and "if isIssuedCurrencyAmount (amount (authorization payload))
         then getProp obj ''currency'' = amountField (amount (authorization payload)) ''currency'' \<and>
              getProp obj ''issuer'' = amountField (amount (authorization payload)) ''issuer''
         else getProp obj ''mpt_issuance_id'' =
                amountField (amount (authorization payload)) ''mpt_issuance_id''"
  shows "(getProp tx ''Account'' = JStr (account (authorization payload)) \<and>
          getProp tx ''Destination'' = JStr (destination (authorization payload)) \<and>
          getProp tx ''Fee'' = JStr (fee (authorization payload)) \<longrightarrow>
            (crossCheckAuthorization env tx payload =
               Some (invalid ''authorization_mismatch_amount'')) =
            number_neq (parseFloat env w) (parseFloat env v)) \<and>
         (\<not> number_neq (parseFloat env w) (parseFloat env v) \<longrightarrow>
            crossCheckAuthorization env tx payload \<noteq>
              Some (invalid ''authorization_mismatch_amount''))"
proof (cases "isIssuedCurrencyAmount (amount (authorization payload))")
  case True
  then show ?thesis using assms(3-5)
    by (simp add: crossCheckAuthorization_def Let_def assms(2))
next
  case False
  then have "isMPTAmount (amount (authorization payload))" using assms(1) by simp
  then show ?thesis using assms(3-5) False
    by (simp add: crossCheckAuthorization_def Let_def assms(2))
qed

text \<open>
  C5.  For an issued-currency or MPT amount, both comparisons are made on the parsed
  numbers.  \<open>checkAmount\<close> answers \<open>insufficient_amount\<close> exactly when the claimed value
  or the requirement parses to NaN or the parsed value is below the parsed requirement.
  When the decoded amount carries the same identifying fields (and account, destination
  and fee agree, so that the cross-check reaches the amount), the cross-check reports an
  amount mismatch exactly when the parsed values differ.  For plain decimal strings the
  parsed number is the double of the number denoted, so strings that denote the same
  number (\<open>25.50\<close> and \<open>25.5\<close>) are equal in the cross-check and meet each other as
  requirement.
\<close>

theorem decimal_amounts_compared_by_value:
  assumes "isIssuedCurrencyAmount (amount (authorization payload)) \<or>
           isMPTAmount (amount (authorization payload))"
    and "amountField (amount (authorization payload)) ''value'' = JStr v"
  shows
    "checkAmount env payload requirements =
       (if parseFloat env v = None \<or>
           parseFloat env (maxAmountRequired requirements) = None \<or>
           number_less (parseFloat env v) (parseFloat env (maxAmountRequired requirements))
        then Some (invalid ''insufficient_amount'') else None) \<and>
     (\<forall>qv qr.
        decimalNumber v = Some qv \<and> decimalNumber (maxAmountRequired requirements) = Some qr \<longrightarrow>
          checkAmount env payload requirements =
            (if double_less (toDouble env qv) (toDouble env qr)
             then Some (invalid ''insufficient_amount'') else None) \<and>
          (qv = qr \<longrightarrow> checkAmount env payload requirements = None)) \<and>
     (\<forall>obj w.
        getProp tx ''Amount'' = JObj obj \<and> getProp obj ''value'' = JStr w \<and>
        (if isIssuedCurrencyAmount (amount (authorization payload))
         then getProp obj ''currency'' = amountField (amount (authorization payload)) ''currency'' \<and>
              getProp obj ''issuer'' = amountField (amount (authorization payload)) ''issuer''
         else getProp obj ''mpt_issuance_id'' =
                amountField (amount (authorization payload)) ''mpt_issuance_id'') \<longrightarrow>
          (getProp tx ''Account'' = JStr (account (authorization payload)) \<and>
           getProp tx ''Destination'' = JStr (destination (authorization payload)) \<and>
           getProp tx ''Fee'' = JStr (fee (authorization payload)) \<longrightarrow>
             (crossCheckAuthorization env tx payload =
                Some (invalid ''authorization_mismatch_amount'')) =
             number_neq (parseFloat env w) (parseFloat env v)) \<and>
          (\<forall>qw qv.
             decimalNumber w = Some qw \<and> decimalNumber v = Some qv \<longrightarrow>
               (getProp tx ''Account'' = JStr (account (authorization payload)) \<and>
                getProp tx ''Destination'' = JStr (destination (authorization payload)) \<and>
                getProp tx ''Fee'' = JStr (fee (authorization payload)) \<longrightarrow>
                  (crossCheckAuthorization env tx payload =
                     Some (invalid ''authorization_mismatch_amount'')) =
                  (toDouble env qw \<noteq> toDouble env qv)) \<and>
               (qw = qv \<longrightarrow>
                  crossCheckAuthorization env tx payload \<noteq>
                    Some (invalid ''authorization_mismatch_amount''))))"
proof (intro conjI allI impI)
  note ca = checkAmount_decimal [OF assms, of env requirements]
  show "checkAmount env payload requirements =
       (if parseFloat env v = None \<or>
           parseFloat env (maxAmountRequired requirements) = None \<or>
           number_less (parseFloat env v) (parseFloat env (maxAmountRequired requirements))
        then Some (invalid ''insufficient_amount'') else None)"
    by (rule ca)
  {
    fix qv qr
    assume h: "decimalNumber v = Some qv \<and>
               decimalNumber (maxAmountRequired requirements) = Some qr"
    then have pv: "parseFloat env v = Some (toDouble env qv)"
      and pr: "parseFloat env (maxAmountRequired requirements) = Some (toDouble env qr)"
      by (simp_all add: parseFloat_decimalNumber)
    show c: "checkAmount env payload requirements =
            (if double_less (toDouble env qv) (toDouble env qr)
             then Some (invalid ''insufficient_amount'') else None)"
      by (simp add: ca pv pr)
    assume "qv = qr"
    then show "checkAmount env payload requirements = None" by (simp add: c)
  }
  {
    fix obj w
    assume h: "getProp tx ''Amount'' = JObj obj \<and> getProp obj ''value'' = JStr w \<and>
        (if isIssuedCurrencyAmount (amount (authorization payload))
         then getProp obj ''currency'' = amountField (amount (authorization payload)) ''currency'' \<and>
              getProp obj ''issuer'' = amountField (amount (authorization payload)) ''issuer''
         else getProp obj ''mpt_issuance_id'' =
                amountField (amount (authorization payload)) ''mpt_issuance_id'')"
    then have h1: "getProp tx ''Amount'' = JObj obj" and h2: "getProp obj ''value'' = JStr w"
      and h3: "if isIssuedCurrencyAmount (amount (authorization payload))
         then getProp obj ''currency'' = amountField (amount (authorization payload)) ''currency'' \<and>
              getProp obj ''issuer'' = amountField (amount (authorization payload)) ''issuer''
         else getProp obj ''mpt_issuance_id'' =
                amountField (amount (authorization payload)) ''mpt_issuance_id''"
      by simp_all
    note cc = crossCheck_amount_decimal [OF assms h1 h2 h3, of env]
    {
      assume m: "getProp tx ''Account'' = JStr (account (authorization payload)) \<and>
           getProp tx ''Destination'' = JStr (destination (authorization payload)) \<and>
           getProp tx ''Fee'' = JStr (fee (authorization payload))"
      show "(crossCheckAuthorization env tx payload =
                Some (invalid ''authorization_mismatch_amount'')) =
             number_neq (parseFloat env w) (parseFloat env v)"
        using cc [THEN conjunct1] m by blast
    }
    fix qw qv
    assume d: "decimalNumber w = Some qw \<and> decimalNumber v = Some qv"
    then have pw: "parseFloat env w = Some (toDouble env qw)"
      and pv: "parseFloat env v = Some (toDouble env qv)"
      by (simp_all add: parseFloat_decimalNumber)
    {
      assume m: "getProp tx ''Account'' = JStr (account (authorization payload)) \<and>
           getProp tx ''Destination'' = JStr (destination (authorization payload)) \<and>
           getProp tx ''Fee'' = JStr (fee (authorization payload))"
      have "(crossCheckAuthorization env tx payload =
                Some (invalid ''authorization_mismatch_amount'')) =
             number_neq (parseFloat env w) (parseFloat env v)"
        using cc [THEN conjunct1] m by blast
      then show "(crossCheckAuthorization env tx payload =
                     Some (invalid ''authorization_mismatch_amount'')) =
                  (toDouble env qw \<noteq> toDouble env qv)"
        by (simp add: pw pv)
    }
    assume "qw = qv"
    then have "\<not> number_neq (parseFloat env w) (parseFloat env v)" by (simp add: pw pv)
    then show "crossCheckAuthorization env tx payload \<noteq>
                    Some (invalid ''authorization_mismatch_amount'')"
      using cc [THEN conjunct2] by blast
  }
qed

theorem decimal_amounts_compared_by_value_witness:
  "checkAmount sampleEnv (samplePayload ''issued'' (issuedAmount ''25.50'') None)
     (sampleRequirements ''25.5'' ''rIssuer'') = None \<and>
   checkAmount sampleEnv (samplePayload ''issued'' (issuedAmount ''25.49'') None)
     (sampleRequirements ''25.5'' ''rIssuer'') = Some (invalid ''insufficient_amount'') \<and>
   checkAmount sampleEnv (samplePayload ''issued'' (issuedAmount ''abc'') None)
     (sampleRequirements ''25.5'' ''rIssuer'') = Some (invalid ''insufficient_amount'') \<and>
   checkAmount sampleEnv (samplePayload ''mpt'' (mptAmount ''100.0'') None)
     (sampleRequirements ''100'' ''mpt:00AB'') = None \<and>
   checkAmount sampleEnv (samplePayload ''mpt'' (mptAmount ''50'') None)
     (sampleRequirements ''100'' ''mpt:00AB'') = Some (invalid ''insufficient_amount'') \<and>
   crossCheckAuthorization sampleEnv
     (sampleTx (JObj [(''currency'', JStr ''USD''), (''issuer'', JStr ''rIssuer''),
                      (''value'', JStr ''25.5'')]))
     (samplePayload ''issued'' (issuedAmount ''25.50'') None) \<noteq>
     Some (invalid ''authorization_mismatch_amount'') \<and>
   crossCheckAuthorization sampleEnv
     (sampleTx (JObj [(''currency'', JStr ''USD''), (''issuer'', JStr ''rIssuer''),
                      (''value'', JStr ''25.5'')]))
     (samplePayload ''issued'' (issuedAmount ''26'') None) =
     Some (invalid ''authorization_mismatch_amount'')"
proof -
  let ?obj = "[(''currency'', JStr ''USD''), (''issuer'', JStr ''rIssuer''), (''value'', JStr ''25.5'')]"
  let ?tx = "sampleTx (JObj ?obj)"
  let ?r = "sampleRequirements ''25.5'' ''rIssuer''"
  let ?r' = "sampleRequirements ''100'' ''mpt:00AB''"
  have i: "\<And>v. isIssuedCurrencyAmount (amount (authorization (samplePayload ''issued'' (issuedAmount v) None))) \<or>
      isMPTAmount (amount (authorization (samplePayload ''issued'' (issuedAmount v) None)))"
    "\<And>v. amountField (amount (authorization (samplePayload ''issued'' (issuedAmount v) None))) ''value'' = JStr v"
    by simp_all
  have m: "\<And>v. isIssuedCurrencyAmount (amount (authorization (samplePayload ''mpt'' (mptAmount v) None))) \<or>
      isMPTAmount (amount (authorization (samplePayload ''mpt'' (mptAmount v) None)))"
    "\<And>v. amountField (amount (authorization (samplePayload ''mpt'' (mptAmount v) None))) ''value'' = JStr v"
    by simp_all
  note I = decimal_amounts_compared_by_value [OF i, where env = sampleEnv and tx = ?tx]
  note M = decimal_amounts_compared_by_value [OF m, where env = sampleEnv and tx = ?tx]
  have g: "getProp ?obj ''value'' = JStr ''25.5''" "getProp ?obj ''currency'' = JStr ''USD''"
    "getProp ?obj ''issuer'' = JStr ''rIssuer''"
    by (simp_all add: getProp_def)
  have 1: "checkAmount sampleEnv (samplePayload ''issued'' (issuedAmount ''25.50'') None) ?r = None"
    using I [of "''25.50''" ?r, THEN conjunct2, THEN conjunct1, rule_format, of "51 / 2" "51 / 2"]
    by simp
  have 2: "checkAmount sampleEnv (samplePayload ''issued'' (issuedAmount ''25.49'') None) ?r =
             Some (invalid ''insufficient_amount'')"
    using I [of "''25.49''" ?r, THEN conjunct2, THEN conjunct1, rule_format, of "2549 / 100" "51 / 2"]
    by simp
  have 3: "checkAmount sampleEnv (samplePayload ''issued'' (issuedAmount ''abc'') None) ?r =
             Some (invalid ''insufficient_amount'')"
    using I [of "''abc''" ?r, THEN conjunct1] by (simp add: parseFloat_abc)
  have 4: "checkAmount sampleEnv (samplePayload ''mpt'' (mptAmount ''100.0'') None) ?r' = None"
    using M [of "''100.0''" ?r', THEN conjunct2, THEN conjunct1, rule_format, of 100 100]
    by simp
  have 5: "checkAmount sampleEnv (samplePayload ''mpt'' (mptAmount ''50'') None) ?r' =
             Some (invalid ''insufficient_amount'')"
    using M [of "''50''" ?r', THEN conjunct2, THEN conjunct1, rule_format, of 50 100]
    by simp
  have 6: "crossCheckAuthorization sampleEnv ?tx
             (samplePayload ''issued'' (issuedAmount ''25.50'') None) \<noteq>
             Some (invalid ''authorization_mismatch_amount'')"
    using I [of "''25.50''" ?r, THEN conjunct2, THEN conjunct2, rule_format, of ?obj "''25.5''",
        THEN conjunct2, rule_format, of "51 / 2" "51 / 2", THEN conjunct2]
    by (simp add: g)
  have 7: "crossCheckAuthorization sampleEnv ?tx
             (samplePayload ''issued'' (issuedAmount ''26'') None) =
             Some (invalid ''authorization_mismatch_amount'')"
    using I [of "''26''" ?r, THEN conjunct2, THEN conjunct2, rule_format, of ?obj "''25.5''",
        THEN conjunct2, rule_format, of "51 / 2" 26, THEN conjunct1]
    by (simp add: g)
  show ?thesis using 1 2 3 4 5 6 7 by simp
qed

subsection \<open>Classification of amounts\<close>

text \<open>
  C3, as stated, fails: an amount object that carries \<open>currency\<close>, \<open>issuer\<close> and
  \<open>value\<close> together with \<open>mpt_issuance_id\<close> satisfies the issued-currency type guard,
  passes \<open>checkAmount\<close>, and the whole offline pipeline accepts it.
\<close>

theorem mixed_amount_accepted_as_issued:
  "isIssuedCurrencyAmount mixedAmount \<and>
   checkAmount sampleEnv (samplePayload ''issued'' mixedAmount None)
     (sampleRequirements ''25.5'' ''rIssuer'') = None \<and>
   verify sampleEnv (samplePayload ''issued'' mixedAmount None)
     (sampleRequirements ''25.5'' ''rIssuer'') None [] = (Inr valid, [])"
proof -
  let ?p = "samplePayload ''issued'' mixedAmount None"
  let ?r = "sampleRequirements ''25.5'' ''rIssuer''"
  let ?obj = "[(''currency'', JStr ''USD''), (''issuer'', JStr ''rIssuer''), (''value'', JStr ''25.5'')]"
  have pf: "parseFloat sampleEnv ''25.50'' = Some (Finite (51 / 2))"
    "parseFloat sampleEnv ''25.5'' = Some (Finite (51 / 2))"
    using parseFloat_decimalNumber [of "''25.50''" "51 / 2" sampleEnv]
      parseFloat_decimalNumber [of "''25.5''" "51 / 2" sampleEnv]
    by simp_all
  have g: "getProp ?obj ''value'' = JStr ''25.5''" "getProp ?obj ''currency'' = JStr ''USD''"
    "getProp ?obj ''issuer'' = JStr ''rIssuer''"
    by (simp_all add: getProp_def)
  have 1: "decodeTxBlob sampleEnv ''issued'' = Inr (sampleTx (JObj ?obj))"
    by (simp add: decodeTxBlob_def sampleEnv_def sampleDecode_def)
  have 2: "validateTransaction sampleEnv (sampleTx (JObj ?obj)) = None"
    by (simp add: validateTransaction_def sampleEnv_def)
  have 3: "verifyTxSignature sampleEnv ''issued'' = None"
    by (simp add: verifyTxSignature_def sampleEnv_def sampleVerifySignature_def)
  have 4: "crossCheckAuthorization sampleEnv (sampleTx (JObj ?obj)) ?p = None"
    by (simp add: crossCheckAuthorization_def g pf)
  have 5: "checkDestination ?p ?r = None"
    by (simp add: checkDestination_def)
  have 6: "checkAmount sampleEnv ?p ?r = None"
    by (simp add: checkAmount_def pf)
  have 7: "checkAsset ?p ?r = Inr None"
    by (simp add: checkAsset_def classifyAsset_def startsWith_def)
  have 8: "rejectPartialPayment (sampleTx (JObj ?obj)) = None"
    by (simp add: rejectPartialPayment_def)
  have "verify sampleEnv ?p ?r None [] = (Inr valid, [])"
    by (simp add: verify_def 1 2 3 4 5 6 7 8)
  then show ?thesis using 6 by simp
qed

text \<open>
  C3, amended.  At most one variant applies to an amount: a string satisfies neither
  object guard, and no object satisfies both.  An object with the identifying properties
  of both object variants is an issued-currency amount and not an MPT amount:
  \<open>checkAmount\<close> never reports it as malformed, and \<open>checkAsset\<close> accepts it against
  its issuer and answers \<open>asset_mismatch\<close> against an MPT requirement.  An object that
  satisfies neither guard is rejected by \<open>checkAmount\<close> with \<open>invalid_amount_format\<close>.
\<close>

theorem amount_classification:
  "\<not> (isIssuedCurrencyAmount a \<and> isMPTAmount a) \<and>
   (\<forall>s. a = AStr s \<longrightarrow> \<not> isIssuedCurrencyAmount a \<and> \<not> isMPTAmount a) \<and>
   (\<forall>fs. a = AObj fs \<and> hasField fs ''currency'' \<and> hasField fs ''issuer'' \<and>
         hasField fs ''value'' \<and> hasField fs ''mpt_issuance_id'' \<longrightarrow>
      isIssuedCurrencyAmount a \<and> \<not> isMPTAmount a \<and>
      (amount (authorization payload) = a \<longrightarrow>
         checkAmount env payload requirements \<noteq> Some (invalid ''invalid_amount_format'') \<and>
         (classifyAsset (asset requirements) = Inr Issued \<and>
          amountField a ''issuer'' = JStr (asset requirements) \<longrightarrow>
            checkAsset payload requirements = Inr None) \<and>
         (classifyAsset (asset requirements) = Inr Mpt \<longrightarrow>
            checkAsset payload requirements = Inr (Some (invalid ''asset_mismatch''))))) \<and>
   (\<forall>fs. a = AObj fs \<and> \<not> isIssuedCurrencyAmount a \<and> \<not> isMPTAmount a \<and>
         amount (authorization payload) = a \<longrightarrow>
      checkAmount env payload requirements = Some (invalid ''invalid_amount_format''))"
proof -
  have A: "\<not> (isIssuedCurrencyAmount a \<and> isMPTAmount a)"
    by (cases a) auto
  have B: "\<And>s. a = AStr s \<Longrightarrow> \<not> isIssuedCurrencyAmount a \<and> \<not> isMPTAmount a"
    by simp
  have C: "\<And>fs. a = AObj fs \<and> hasField fs ''currency'' \<and> hasField fs ''issuer'' \<and>
         hasField fs ''value'' \<and> hasField fs ''mpt_issuance_id'' \<Longrightarrow>
       isIssuedCurrencyAmount a \<and> \<not> isMPTAmount a"
    by simp
  have D: "\<And>fs. a = AObj fs \<and> hasField fs ''currency'' \<and> hasField fs ''issuer'' \<and>
         hasField fs ''value'' \<and> hasField fs ''mpt_issuance_id'' \<Longrightarrow>
       amount (authorization payload) = a \<Longrightarrow>
       checkAmount env payload requirements \<noteq> Some (invalid ''invalid_amount_format'')"
    by (simp add: checkAmount_def Let_def)
  have E: "\<And>fs. a = AObj fs \<and> hasField fs ''currency'' \<and> hasField fs ''issuer'' \<and>
         hasField fs ''value'' \<and> hasField fs ''mpt_issuance_id'' \<Longrightarrow>
       amount (authorization payload) = a \<Longrightarrow>
       classifyAsset (asset requirements) = Inr Issued \<and>
          amountField a ''issuer'' = JStr (asset requirements) \<Longrightarrow>
       checkAsset payload requirements = Inr None"
    by (simp add: checkAsset_def)
  have F: "\<And>fs. a = AObj fs \<and> hasField fs ''currency'' \<and> hasField fs ''issuer'' \<and>
         hasField fs ''value'' \<and> hasField fs ''mpt_issuance_id'' \<Longrightarrow>
       amount (authorization payload) = a \<Longrightarrow>
       classifyAsset (asset requirements) = Inr Mpt \<Longrightarrow>
       checkAsset payload requirements = Inr (Some (invalid ''asset_mismatch''))"
    by (simp add: checkAsset_def)
  have G: "\<And>fs. a = AObj fs \<and> \<not> isIssuedCurrencyAmount a \<and> \<not> isMPTAmount a \<and>
         amount (authorization payload) = a \<Longrightarrow>
      checkAmount env payload requirements = Some (invalid ''invalid_amount_format'')"
  proof -
    fix fs
    assume h: "a = AObj fs \<and> \<not> isIssuedCurrencyAmount a \<and> \<not> isMPTAmount a \<and>
         amount (authorization payload) = a"
    then have n: "\<not> isIssuedCurrencyAmount (amount (authorization payload))"
      "\<not> isMPTAmount (amount (authorization payload))" by auto
    have "checkAmount env payload requirements =
        (case (case amount (authorization payload) of AStr s \<Rightarrow> BigInt s | AObj fs \<Rightarrow> None) of
           None \<Rightarrow> Some (invalid ''invalid_amount_format'')
         | Some paymentDrops \<Rightarrow>
             (case BigInt (maxAmountRequired requirements) of
                None \<Rightarrow> Some (invalid ''invalid_amount_format'')
              | Some requiredDrops \<Rightarrow>
                  if paymentDrops < requiredDrops then Some (invalid ''insufficient_amount'')
                  else None))"
      using n by (simp add: checkAmount_def Let_def)
    then show "checkAmount env payload requirements = Some (invalid ''invalid_amount_format'')"
      using h by simp
  qed
  show ?thesis
    using A B C D E F G by blast
qed

theorem amount_classification_witness:
  "isIssuedCurrencyAmount mixedAmount \<and> \<not> isMPTAmount mixedAmount \<and>
   checkAsset (samplePayload ''issued'' mixedAmount None) (sampleRequirements ''25.5'' ''rIssuer'')
     = Inr None \<and>
   checkAsset (samplePayload ''issued'' mixedAmount None) (sampleRequirements ''25.5'' ''mpt:00AB'')
     = Inr (Some (invalid ''asset_mismatch'')) \<and>
   checkAmount sampleEnv (samplePayload ''issued'' (AObj [(''value'', ''25.50'')]) None)
     (sampleRequirements ''25.5'' ''rIssuer'') = Some (invalid ''invalid_amount_format'')"
proof -
  let ?fs = "[(''currency'', ''USD''), (''issuer'', ''rIssuer''), (''value'', ''25.50''),
           (''mpt_issuance_id'', ''00AB'')]"
  let ?p = "samplePayload ''issued'' mixedAmount None"
  have h: "mixedAmount = AObj ?fs \<and> hasField ?fs ''currency'' \<and> hasField ?fs ''issuer'' \<and>
         hasField ?fs ''value'' \<and> hasField ?fs ''mpt_issuance_id''"
    by (simp add: mixedAmount_def hasField_def)
  have p: "amount (authorization ?p) = mixedAmount" by simp
  note A = amount_classification [where a = mixedAmount and payload = ?p and env = sampleEnv
        and requirements = "sampleRequirements ''25.5'' ''rIssuer''",
      THEN conjunct2, THEN conjunct2, THEN conjunct1, rule_format, OF h]
  note B = amount_classification [where a = mixedAmount and payload = ?p and env = sampleEnv
        and requirements = "sampleRequirements ''25.5'' ''mpt:00AB''",
      THEN conjunct2, THEN conjunct2, THEN conjunct1, rule_format, OF h]
  have 1: "isIssuedCurrencyAmount mixedAmount \<and> \<not> isMPTAmount mixedAmount"
    using A by blast
  have 2: "checkAsset ?p (sampleRequirements ''25.5'' ''rIssuer'') = Inr None"
    using A p by (simp add: classifyAsset_def startsWith_def)
  have 3: "checkAsset ?p (sampleRequirements ''25.5'' ''mpt:00AB'') =
            Inr (Some (invalid ''asset_mismatch''))"
    using B p by (simp add: classifyAsset_def startsWith_def)
  let ?q = "samplePayload ''issued'' (AObj [(''value'', ''25.50'')]) None"
  have 4: "checkAmount sampleEnv ?q (sampleRequirements ''25.5'' ''rIssuer'') =
             Some (invalid ''invalid_amount_format'')"
    using amount_classification [where a = "AObj [(''value'', ''25.50'')]" and payload = ?q
        and env = sampleEnv and requirements = "sampleRequirements ''25.5'' ''rIssuer''",
      THEN conjunct2, THEN conjunct2, THEN conjunct2, rule_format, of "[(''value'', ''25.50'')]"]
    by (simp add: hasField_def)
  show ?thesis using 1 2 3 4 by simp
qed

subsection \<open>The first failing step decides\<close>

lemma checkMptAllowlist_samples:
  "checkMptAllowlist sampleEnv ''xrpl:1'' (mptAmount v) =
     Inr (Some (invalid ''mpt_not_allowlisted''))"
  "checkMptAllowlist sampleEnv ''constructor'' (mptAmount v) =
     Inl (TypeError ''MPT_ALLOWLIST[network]?.find is not a function'')"
  by (simp_all add: checkMptAllowlist_def getMptConfig_def sampleEnv_def MPT_ALLOWLIST_def
      inheritedProperties_def)

lemma sample_mpt_steps:
  assumes "payTo r = ''rReceiver''" "maxAmountRequired r = ''100''" "asset r = ''mpt:00AB''"
  shows "firstFailure (offlineSteps sampleEnv
           (sampleTx (JObj [(''mpt_issuance_id'', JStr ''00AB''), (''value'', JStr ''100'')]))
           (samplePayload ''mpt'' (mptAmount ''100'') None) r) =
         firstFailure [checkMptAllowlist sampleEnv (req_network r) (mptAmount ''100'')]"
proof -
  let ?obj = "[(''mpt_issuance_id'', JStr ''00AB''), (''value'', JStr ''100'')]"
  let ?tx = "sampleTx (JObj ?obj)"
  let ?p = "samplePayload ''mpt'' (mptAmount ''100'') None"
  have pf: "parseFloat sampleEnv ''100'' = Some (Finite 100)"
    using parseFloat_decimalNumber [of "''100''" 100 sampleEnv] by simp
  have g: "getProp ?obj ''value'' = JStr ''100''" "getProp ?obj ''mpt_issuance_id'' = JStr ''00AB''"
    by (simp_all add: getProp_def)
  have 2: "validateTransaction sampleEnv ?tx = None"
    by (simp add: validateTransaction_def sampleEnv_def)
  have 3: "verifyTxSignature sampleEnv ''mpt'' = None"
    by (simp add: verifyTxSignature_def sampleEnv_def sampleVerifySignature_def)
  have 4: "crossCheckAuthorization sampleEnv ?tx ?p = None"
    by (simp add: crossCheckAuthorization_def g pf)
  have 5: "checkDestination ?p r = None"
    by (simp add: checkDestination_def assms)
  have 6: "checkAmount sampleEnv ?p r = None"
    by (simp add: checkAmount_def pf assms)
  have 7: "checkAsset ?p r = Inr None"
    by (simp add: checkAsset_def classifyAsset_def startsWith_def assms)
  have 8: "rejectPartialPayment ?tx = None"
    by (simp add: rejectPartialPayment_def)
  show ?thesis
    by (simp add: offlineSteps_def 2 3 4 5 6 7 8)
qed

text \<open>
  C1, as stated, fails: a payload can fail the signature step and the amount step and
  still be answered with the reason of an earlier step.  The sample library cannot decode
  the blob \<open>garbage\<close>, so its signature check throws and step 3 on its own answers
  \<open>signature_verification_failed\<close>; the amount is below the requirement; and \<open>verify\<close>
  returns the reason of step 1.
\<close>

theorem undecodable_blob_reports_decode_failure:
  "verifyTxSignature sampleEnv ''garbage'' = Some (invalid ''signature_verification_failed'') \<and>
   checkAmount sampleEnv (samplePayload ''garbage'' (AStr ''999999'') None)
     (sampleRequirements ''1000000'' ''XRP'') = Some (invalid ''insufficient_amount'') \<and>
   verify sampleEnv (samplePayload ''garbage'' (AStr ''999999'') None)
     (sampleRequirements ''1000000'' ''XRP'') None [] = (Inr (invalid ''invalid_tx_blob''), [])"
proof -
  have 1: "verifyTxSignature sampleEnv ''garbage'' =
             Some (invalid ''signature_verification_failed'')"
    by (simp add: verifyTxSignature_def sampleEnv_def sampleVerifySignature_def)
  have 2: "checkAmount sampleEnv (samplePayload ''garbage'' (AStr ''999999'') None)
     (sampleRequirements ''1000000'' ''XRP'') = Some (invalid ''insufficient_amount'')"
    by (simp add: checkAmount_def)
  have 3: "decodeTxBlob sampleEnv ''garbage'' = Inl (invalid ''invalid_tx_blob'')"
    by (simp add: decodeTxBlob_def sampleEnv_def sampleDecode_def)
  have 4: "verify sampleEnv (samplePayload ''garbage'' (AStr ''999999'') None)
     (sampleRequirements ''1000000'' ''XRP'') None [] = (Inr (invalid ''invalid_tx_blob''), [])"
    by (simp add: verify_def 3)
  show ?thesis using 1 2 4 by simp
qed

text \<open>
  C1, amended.  \<open>verify\<close> runs its steps in a fixed order and returns the outcome of the
  first step that fails or throws: the decode failure, else the first outcome among the
  ordered offline steps, else the outcome of the network steps.  A payload that fails the
  signature step and the amount step is rejected with the reason of step 1, 2 or 3,
  never with \<open>insufficient_amount\<close>; when decoding and validation pass, the reason is
  the one of the signature step.
\<close>

theorem verify_step_order:
  "verify env payload requirements cl tr =
     (case decodeTxBlob env (txBlob payload) of
        Inl r \<Rightarrow> (Inr r, tr)
      | Inr tx \<Rightarrow>
          (case firstFailure (offlineSteps env tx payload requirements) of
             Some res \<Rightarrow> (res, tr)
           | None \<Rightarrow>
               (case cl of
                  None \<Rightarrow> (Inr valid, tr)
                | Some c \<Rightarrow>
                    (case verifyNetwork env c payload tr of (v, tr') \<Rightarrow> (Inr v, tr'))))) \<and>
   (verifyTxSignature env (txBlob payload) \<noteq> None \<and>
    checkAmount env payload requirements \<noteq> None \<longrightarrow>
      (\<exists>reason.
         verify env payload requirements cl tr = (Inr (invalid reason), tr) \<and>
         reason \<noteq> ''insufficient_amount'' \<and>
         (reason = ''invalid_tx_blob'' \<or> reason = ''invalid_transaction_structure'' \<or>
          reason = ''invalid_signature'' \<or> reason = ''signature_verification_failed'') \<and>
         ((\<exists>tx. decode env (txBlob payload) = Inr tx \<and> validate env tx = Inr ()) \<longrightarrow>
            verifyTxSignature env (txBlob payload) = Some (invalid reason))))"
proof (intro conjI impI)
  show "verify env payload requirements cl tr =
     (case decodeTxBlob env (txBlob payload) of
        Inl r \<Rightarrow> (Inr r, tr)
      | Inr tx \<Rightarrow>
          (case firstFailure (offlineSteps env tx payload requirements) of
             Some res \<Rightarrow> (res, tr)
           | None \<Rightarrow>
               (case cl of
                  None \<Rightarrow> (Inr valid, tr)
                | Some c \<Rightarrow>
                    (case verifyNetwork env c payload tr of (v, tr') \<Rightarrow> (Inr v, tr')))))"
    by (rule verify_firstFailure)
next
  assume a: "verifyTxSignature env (txBlob payload) \<noteq> None \<and>
    checkAmount env payload requirements \<noteq> None"
  then obtain r3 where r3: "verifyTxSignature env (txBlob payload) = Some r3" by auto
  from verifyTxSignature_reasons [OF r3]
  obtain m where m: "r3 = invalid m" "m = ''invalid_signature'' \<or> m = ''signature_verification_failed''"
    by auto
  have m_ne: "m \<noteq> ''insufficient_amount''"
    using m(2) by auto
  show "\<exists>reason.
         verify env payload requirements cl tr = (Inr (invalid reason), tr) \<and>
         reason \<noteq> ''insufficient_amount'' \<and>
         (reason = ''invalid_tx_blob'' \<or> reason = ''invalid_transaction_structure'' \<or>
          reason = ''invalid_signature'' \<or> reason = ''signature_verification_failed'') \<and>
         ((\<exists>tx. decode env (txBlob payload) = Inr tx \<and> validate env tx = Inr ()) \<longrightarrow>
            verifyTxSignature env (txBlob payload) = Some (invalid reason))"
  proof (cases "decode env (txBlob payload)")
    case (Inl e)
    then have v: "verify env payload requirements cl tr = (Inr (invalid ''invalid_tx_blob''), tr)"
      by (simp add: verify_def decodeTxBlob_def)
    show ?thesis
      by (rule exI [of _ "''invalid_tx_blob''"]) (simp add: v Inl)
  next
    case (Inr tx)
    note dec = Inr
    show ?thesis
    proof (cases "validate env tx")
      case (Inl e)
      then have v: "verify env payload requirements cl tr =
          (Inr (invalid ''invalid_transaction_structure''), tr)"
        using dec by (simp add: verify_def decodeTxBlob_def validateTransaction_def)
      show ?thesis
        by (rule exI [of _ "''invalid_transaction_structure''"]) (simp add: v Inl dec)
    next
      case (Inr u)
      then have v: "verify env payload requirements cl tr = (Inr (invalid m), tr)"
        using dec r3 m(1) by (simp add: verify_def decodeTxBlob_def validateTransaction_def)
      show ?thesis
        using m(2) by (intro exI [of _ m]) (simp add: v r3 m(1) m_ne)
    qed
  qed
qed

theorem verify_step_order_witness:
  "verifyTxSignature sampleEnv ''unsigned'' \<noteq> None \<and>
   checkAmount sampleEnv (samplePayload ''unsigned'' (AStr ''999999'') None)
     (sampleRequirements ''1000000'' ''XRP'') \<noteq> None \<and>
   verify sampleEnv (samplePayload ''unsigned'' (AStr ''999999'') None)
     (sampleRequirements ''1000000'' ''XRP'') None [] = (Inr (invalid ''invalid_signature''), []) \<and>
   verify sampleEnv (samplePayload ''mpt'' (mptAmount ''100'') None)
     (sampleRequirements ''100'' ''mpt:00AB'') None [] =
     (Inr (invalid ''mpt_not_allowlisted''), []) \<and>
   verify sampleEnv (samplePayload ''mpt'' (mptAmount ''100'') None)
     ((sampleRequirements ''100'' ''mpt:00AB'')\<lparr>req_network := ''constructor''\<rparr>) None [] =
     (Inl (TypeError ''MPT_ALLOWLIST[network]?.find is not a function''), [])"
proof -
  let ?p = "samplePayload ''unsigned'' (AStr ''999999'') None"
  let ?r = "sampleRequirements ''1000000'' ''XRP''"
  have s3: "verifyTxSignature sampleEnv (txBlob ?p) = Some (invalid ''invalid_signature'')"
    by (simp add: verifyTxSignature_def sampleEnv_def sampleVerifySignature_def)
  have s6: "checkAmount sampleEnv ?p ?r = Some (invalid ''insufficient_amount'')"
    by (simp add: checkAmount_def)
  have d: "\<exists>tx. decode sampleEnv (txBlob ?p) = Inr tx \<and> validate sampleEnv tx = Inr ()"
    by (simp add: sampleEnv_def sampleDecode_def)
  have h: "verifyTxSignature sampleEnv (txBlob ?p) \<noteq> None \<and> checkAmount sampleEnv ?p ?r \<noteq> None"
    using s3 s6 by simp
  from verify_step_order [of sampleEnv ?p ?r None "[]", THEN conjunct2, rule_format, OF h]
  obtain reason where A: "verify sampleEnv ?p ?r None [] = (Inr (invalid reason), [])"
    and B: "(\<exists>tx. decode sampleEnv (txBlob ?p) = Inr tx \<and> validate sampleEnv tx = Inr ()) \<longrightarrow>
            verifyTxSignature sampleEnv (txBlob ?p) = Some (invalid reason)"
    by blast
  from B d have "verifyTxSignature sampleEnv (txBlob ?p) = Some (invalid reason)" by blast
  with s3 have "invalid reason = invalid ''invalid_signature''" by simp
  with A have 1: "verify sampleEnv ?p ?r None [] = (Inr (invalid ''invalid_signature''), [])"
    by simp
  let ?m = "samplePayload ''mpt'' (mptAmount ''100'') None"
  let ?tx = "sampleTx (JObj [(''mpt_issuance_id'', JStr ''00AB''), (''value'', JStr ''100'')])"
  let ?q = "sampleRequirements ''100'' ''mpt:00AB''"
  let ?q' = "(sampleRequirements ''100'' ''mpt:00AB'')\<lparr>req_network := ''constructor''\<rparr>"
  have dm: "decodeTxBlob sampleEnv ''mpt'' = Inr ?tx"
    by (simp add: decodeTxBlob_def sampleEnv_def sampleDecode_def)
  have 2: "verify sampleEnv ?m ?q None [] = (Inr (invalid ''mpt_not_allowlisted''), [])"
    using verify_step_order [of sampleEnv ?m ?q None "[]", THEN conjunct1]
    by (simp add: dm sample_mpt_steps checkMptAllowlist_samples)
  have 3: "verify sampleEnv ?m ?q' None [] =
     (Inl (TypeError ''MPT_ALLOWLIST[network]?.find is not a function''), [])"
    using verify_step_order [of sampleEnv ?m ?q' None "[]", THEN conjunct1]
    by (simp add: dm sample_mpt_steps checkMptAllowlist_samples)
  show ?thesis using 1 2 3 s3 s6 by simp
qed

subsection \<open>The network checks soft-fail\<close>

lemma checkAccountBalance_info_throws:
  "isl (request_account_info c tr acct) \<Longrightarrow>
     fst (checkAccountBalance c acct amt feeStr seq ticketSeq tr) = None"
  by (cases "request_account_info c tr acct") (simp_all add: checkAccountBalance_def)

lemma checkAccountBalance_ticket_throws:
  assumes "isl (request_account_objects c (tr @ [AccountInfo acct]) acct)"
    and "snd (checkAccountBalance c acct amt feeStr seq ticketSeq tr) =
           tr @ [AccountInfo acct, AccountObjects acct]"
  shows "fst (checkAccountBalance c acct amt feeStr seq ticketSeq tr) = None"
proof -
  obtain e where e: "request_account_objects c (tr @ [AccountInfo acct]) acct = Inl e"
    using assms(1) by (cases "request_account_objects c (tr @ [AccountInfo acct]) acct") auto
  show ?thesis
    using assms(2)
    by (auto simp: checkAccountBalance_def Let_def e
        split: sum.splits option.splits if_splits amount.splits)
qed

lemma checkLedgerExpiry_throws:
  "isl (getLedgerIndex c tr) \<Longrightarrow> fst (checkLedgerExpiry c lastLedger tr) = None"
  by (cases "getLedgerIndex c tr"; cases lastLedger) (simp_all add: checkLedgerExpiry_def)

lemma checkTrustLine_throws:
  "isl (request_account_lines c tr dest (amountField amt ''issuer'')) \<Longrightarrow>
     fst (checkTrustLine env c dest amt tr) = None"
  by (cases "request_account_lines c tr dest (amountField amt ''issuer'')")
     (simp_all add: checkTrustLine_def)

lemma checkMptIssuance_throws:
  "isl (request_ledger_entry c tr (LedgerEntryIssuance ident)) \<Longrightarrow>
     fst (checkMptIssuance c ident tr) = None"
  by (cases "request_ledger_entry c tr (LedgerEntryIssuance ident)")
     (simp_all add: checkMptIssuance_def)

lemma checkMptHolder_throws:
  "isl (request_ledger_entry c tr
          (LedgerEntryMPToken (amountField m ''mpt_issuance_id'') acct)) \<Longrightarrow>
     fst (checkMptHolder env c acct m tr) = None"
  by (cases "request_ledger_entry c tr
          (LedgerEntryMPToken (amountField m ''mpt_issuance_id'') acct)")
     (simp_all add: checkMptHolder_def)

lemma checkMptDestination_throws:
  "isl (request_ledger_entry c tr (LedgerEntryMPToken ident dest)) \<Longrightarrow>
     fst (checkMptDestination c dest ident tr) = None"
  by (cases "request_ledger_entry c tr (LedgerEntryMPToken ident dest)")
     (simp_all add: checkMptDestination_def)

text \<open>
  C6.  Each network check returns pass when its ledger request throws: the account query
  and the ticket lookup of \<open>checkAccountBalance\<close> (the lookup is the second call, made
  only after the balance check passed), the ledger index of \<open>checkLedgerExpiry\<close>, the
  trust lines of \<open>checkTrustLine\<close>, and the ledger entries of \<open>checkMptIssuance\<close>,
  \<open>checkMptHolder\<close> and \<open>checkMptDestination\<close>.
\<close>

theorem network_checks_soft_fail:
  "(isl (request_account_info c tr acct) \<longrightarrow>
      fst (checkAccountBalance c acct amt feeStr seq ticketSeq tr) = None) \<and>
   (isl (request_account_objects c (tr @ [AccountInfo acct]) acct) \<and>
    snd (checkAccountBalance c acct amt feeStr seq ticketSeq tr) =
      tr @ [AccountInfo acct, AccountObjects acct] \<longrightarrow>
      fst (checkAccountBalance c acct amt feeStr seq ticketSeq tr) = None) \<and>
   (isl (getLedgerIndex c tr) \<longrightarrow> fst (checkLedgerExpiry c lastLedger tr) = None) \<and>
   (isl (request_account_lines c tr dest (amountField amt ''issuer'')) \<longrightarrow>
      fst (checkTrustLine env c dest amt tr) = None) \<and>
   (isl (request_ledger_entry c tr (LedgerEntryIssuance ident)) \<longrightarrow>
      fst (checkMptIssuance c ident tr) = None) \<and>
   (isl (request_ledger_entry c tr
           (LedgerEntryMPToken (amountField m ''mpt_issuance_id'') acct)) \<longrightarrow>
      fst (checkMptHolder env c acct m tr) = None) \<and>
   (isl (request_ledger_entry c tr (LedgerEntryMPToken ident dest)) \<longrightarrow>
      fst (checkMptDestination c dest ident tr) = None)"
  by (intro conjI impI)
     (simp_all add: checkAccountBalance_info_throws checkAccountBalance_ticket_throws
        checkLedgerExpiry_throws checkTrustLine_throws checkMptIssuance_throws
        checkMptHolder_throws checkMptDestination_throws)

theorem network_checks_soft_fail_witness:
  "fst (checkAccountBalance downClient ''rSender'' (AStr ''1000000'') ''12'' 1 None []) = None \<and>
   fst (checkAccountBalance (sampleClient 1 ''tesSUCCESS'') ''rSender'' (AStr ''1000000'') ''12'' 1
          (Some 7) []) = None \<and>
   fst (checkLedgerExpiry downClient (Some 100) []) = None \<and>
   fst (checkTrustLine sampleEnv downClient ''rReceiver'' (issuedAmount ''25.5'') []) = None \<and>
   fst (checkMptIssuance downClient (JStr ''00AB'') []) = None \<and>
   fst (checkMptHolder sampleEnv downClient ''rSender'' (mptAmount ''100'') []) = None \<and>
   fst (checkMptDestination downClient ''rReceiver'' (JStr ''00AB'') []) = None"
proof -
  note T = network_checks_soft_fail [where tr = "[]" and acct = "''rSender''"
      and amt = "AStr ''1000000''" and feeStr = "''12''" and seq = 1 and lastLedger = "Some 100"
      and dest = "''rReceiver''" and ident = "JStr ''00AB''" and env = sampleEnv]
  note D = T [where c = downClient and ticketSeq = None and m = "mptAmount ''100''"]
  have 1: "fst (checkAccountBalance downClient ''rSender'' (AStr ''1000000'') ''12'' 1 None []) = None"
    using D [THEN conjunct1] by (simp add: downClient_def)
  have tr: "snd (checkAccountBalance (sampleClient 1 ''tesSUCCESS'') ''rSender'' (AStr ''1000000'')
               ''12'' 1 (Some 7) []) = [] @ [AccountInfo ''rSender'', AccountObjects ''rSender'']"
    by (simp add: checkAccountBalance_def sampleClient_def)
  have 2: "fst (checkAccountBalance (sampleClient 1 ''tesSUCCESS'') ''rSender'' (AStr ''1000000'')
               ''12'' 1 (Some 7) []) = None"
    using T [where c = "sampleClient 1 ''tesSUCCESS''" and ticketSeq = "Some 7",
        THEN conjunct2, THEN conjunct1] tr
    by (simp add: sampleClient_def)
  have 3: "fst (checkLedgerExpiry downClient (Some 100) []) = None"
    using D [THEN conjunct2, THEN conjunct2, THEN conjunct1] by (simp add: downClient_def)
  have 4: "fst (checkTrustLine sampleEnv downClient ''rReceiver'' (issuedAmount ''25.5'') []) = None"
    using network_checks_soft_fail [where tr = "[]" and c = downClient and dest = "''rReceiver''"
        and amt = "issuedAmount ''25.5''" and env = sampleEnv,
        THEN conjunct2, THEN conjunct2, THEN conjunct2, THEN conjunct1]
    by (simp add: downClient_def)
  have 5: "fst (checkMptIssuance downClient (JStr ''00AB'') []) = None"
    using D [THEN conjunct2, THEN conjunct2, THEN conjunct2, THEN conjunct2, THEN conjunct1]
    by (simp add: downClient_def)
  have 6: "fst (checkMptHolder sampleEnv downClient ''rSender'' (mptAmount ''100'') []) = None"
    using D [THEN conjunct2, THEN conjunct2, THEN conjunct2, THEN conjunct2, THEN conjunct2,
        THEN conjunct1]
    by (simp add: downClient_def)
  have 7: "fst (checkMptDestination downClient ''rReceiver'' (JStr ''00AB'') []) = None"
    using D [THEN conjunct2, THEN conjunct2, THEN conjunct2, THEN conjunct2, THEN conjunct2,
        THEN conjunct2]
    by (simp add: downClient_def)
  show ?thesis using 1 2 3 4 5 6 7 by simp
qed

subsection \<open>What the pipeline submits\<close>

text \<open>Verification never submits; \<open>submitAndWait\<close> submits its blob once.\<close>

lemma submitted_append [simp]: "submitted (a @ b) = submitted a @ submitted b"
proof (induction a)
  case Nil
  then show ?case by simp
next
  case (Cons x xs)
  then show ?case by (cases x) simp_all
qed

lemma checkAccountBalance_submitted [simp]:
  "submitted (snd (checkAccountBalance c acct amt feeStr seq ticketSeq tr)) = submitted tr"
  by (simp add: checkAccountBalance_def Let_def
      split: sum.splits option.splits amount.splits)

lemma checkLedgerExpiry_submitted [simp]:
  "submitted (snd (checkLedgerExpiry c lastLedger tr)) = submitted tr"
  by (simp add: checkLedgerExpiry_def split: sum.splits option.splits)

lemma checkTrustLine_submitted [simp]:
  "submitted (snd (checkTrustLine env c dest amt tr)) = submitted tr"
  by (simp add: checkTrustLine_def Let_def split: sum.splits option.splits)

lemma checkMptIssuance_submitted [simp]:
  "submitted (snd (checkMptIssuance c ident tr)) = submitted tr"
  by (simp add: checkMptIssuance_def Let_def split: sum.splits option.splits)

lemma checkMptHolder_submitted [simp]:
  "submitted (snd (checkMptHolder env c acct m tr)) = submitted tr"
  by (simp add: checkMptHolder_def Let_def split: sum.splits option.splits)

lemma checkMptDestination_submitted [simp]:
  "submitted (snd (checkMptDestination c dest ident tr)) = submitted tr"
  by (simp add: checkMptDestination_def Let_def split: sum.splits option.splits)

lemma seq_submitted:
  assumes "submitted (snd x) = s"
    and "\<And>t. submitted t = s \<Longrightarrow> submitted (snd (g t)) = s"
  shows "submitted (snd (case x of (None, t) \<Rightarrow> g t | (Some r, t) \<Rightarrow> (r, t))) = s"
  using assms by (cases x; cases "fst x") auto

lemma verifyNetwork_submitted [simp]:
  "submitted (snd (verifyNetwork env c payload tr)) = submitted tr"
  by (auto simp: verifyNetwork_def Let_def intro!: seq_submitted)

lemma verify_submitted [simp]:
  "submitted (snd (verify env payload requirements cl tr)) = submitted tr"
  by (simp add: verify_firstFailure split: sum.splits option.splits prod.splits)
     (metis snd_conv verifyNetwork_submitted)

lemma pollTx_submitted [simp]: "submitted (snd (pollTx c h n tr)) = submitted tr"
  by (induction n arbitrary: tr) (simp_all split: sum.splits)

lemma submitAndWait_submitted [simp]:
  "submitted (snd (submitAndWait c b n tr)) = submitted tr @ [b]"
  by (simp add: submitAndWait_def Let_def split: sum.splits prod.splits)
     (metis pollTx_submitted snd_conv submitted_append submitted.simps)

subsection \<open>The stages of settlement\<close>

lemma settleWithFee_result: "fst (settleWithFee c m feeBlob net tr) = m"
  by (simp add: settleWithFee_def split: prod.splits)

lemma settleWithFee_submitted:
  "submitted (snd (settleWithFee c m feeBlob net tr)) =
     (if success m then submitted tr @ [feeBlob] else submitted tr)"
proof (cases "success m")
  case True
  have "snd (settleWithFee c m feeBlob net tr) = snd (submitAndWait c feeBlob 10 tr)"
    using True by (simp add: settleWithFee_def split: prod.splits)
  then show ?thesis using True by simp
next
  case False
  then show ?thesis by (simp add: settleWithFee_def)
qed

text \<open>The five ways \<open>settle\<close> can go, by the outcome of each stage.\<close>

lemma settle_verify_failed:
  assumes "verify env payload requirements (Some c) tr = (Inr vr, tr1)" and "\<not> isValid vr"
  shows "settle env payload requirements c net tr =
           (Inr \<lparr>success = False, transaction = None, network = Some net, payer = None,
                 errorReason = Some (case invalidReason vr of Some r \<Rightarrow> r
                                     | None \<Rightarrow> ''verification_failed'')\<rparr>, tr1)"
  using assms by (simp add: settle_def)

lemma settle_verify_throws:
  assumes "verify env payload requirements (Some c) tr = (Inl e, tr1)"
  shows "settle env payload requirements c net tr = (Inl e, tr1)"
  using assms by (simp add: settle_def)

lemma settle_fee_rejected:
  assumes "verify env payload requirements (Some c) tr = (Inr vr, tr1)" and "isValid vr"
    and "(if isMPTAmount (amount (authorization payload))
          then verifyFeePayload env payload (mpt (feeSchedule env)) else None) = Some f"
  shows "settle env payload requirements c net tr =
           (Inr \<lparr>success = False, transaction = None, network = Some net, payer = None,
                 errorReason = invalidReason f\<rparr>, tr1)"
  using assms by (simp add: settle_def)

lemma settle_submit_throws:
  assumes "verify env payload requirements (Some c) tr = (Inr vr, tr1)" and "isValid vr"
    and "(if isMPTAmount (amount (authorization payload))
          then verifyFeePayload env payload (mpt (feeSchedule env)) else None) = None"
    and "submitAndWait c (txBlob payload) 10 tr1 = (Inl e, tr2)"
  shows "settle env payload requirements c net tr =
           (Inr \<lparr>success = False, transaction = None, network = Some net, payer = None,
                 errorReason = Some (''settlement_error: '' @ message e)\<rparr>, tr2)"
  using assms by (simp add: settle_def)

lemma settle_submitted_result:
  assumes "verify env payload requirements (Some c) tr = (Inr vr, tr1)" and "isValid vr"
    and "(if isMPTAmount (amount (authorization payload))
          then verifyFeePayload env payload (mpt (feeSchedule env)) else None) = None"
    and "submitAndWait c (txBlob payload) 10 tr1 = (Inr m, tr2)"
  shows "settle env payload requirements c net tr =
           (if truthy (feeTxBlob payload) \<and> success m
            then (Inr (m\<lparr>network := Some net\<rparr>),
                  snd (submitAndWait c (case feeTxBlob payload of Some b \<Rightarrow> b | None \<Rightarrow> [])
                         10 tr2))
            else (Inr (m\<lparr>network := Some net\<rparr>), tr2))"
  using assms
  by (simp add: settle_def Let_def settleWithFee_def split: prod.splits)

text \<open>The sample payment of 1000000 drops on the sample ledger.\<close>

lemma sample_offline:
  assumes "decode env = sampleDecode" "validate env = (\<lambda>tx. Inr ())"
    "verifySignature env = sampleVerifySignature"
  shows "verify env (samplePayload ''xrp'' (AStr ''1000000'') fb)
           (sampleRequirements ''1000000'' ''XRP'') cl tr =
         (case cl of
            None \<Rightarrow> (Inr valid, tr)
          | Some c \<Rightarrow>
              (case verifyNetwork env c (samplePayload ''xrp'' (AStr ''1000000'') fb) tr of
                 (v, tr') \<Rightarrow> (Inr v, tr')))"
proof -
  let ?p = "samplePayload ''xrp'' (AStr ''1000000'') fb"
  let ?r = "sampleRequirements ''1000000'' ''XRP''"
  let ?tx = "sampleTx (JStr ''1000000'')"
  have 1: "decodeTxBlob env ''xrp'' = Inr ?tx"
    by (simp add: decodeTxBlob_def assms sampleDecode_def)
  have 2: "validateTransaction env ?tx = None"
    by (simp add: validateTransaction_def assms)
  have 3: "verifyTxSignature env ''xrp'' = None"
    by (simp add: verifyTxSignature_def assms sampleVerifySignature_def)
  have 4: "crossCheckAuthorization env ?tx ?p = None"
    by (simp add: crossCheckAuthorization_def)
  have 5: "checkDestination ?p ?r = None"
    by (simp add: checkDestination_def)
  have 6: "checkAmount env ?p ?r = None"
    by (simp add: checkAmount_def)
  have 7: "checkAsset ?p ?r = Inr None"
    by (simp add: checkAsset_def classifyAsset_def)
  have 8: "rejectPartialPayment ?tx = None"
    by (simp add: rejectPartialPayment_def)
  show ?thesis
    by (simp add: verify_def 1 2 3 4 5 6 7 8)
qed

lemma sample_network:
  "verifyNetwork env (sampleClient n er) (samplePayload ''xrp'' (AStr ''1000000'') fb) tr =
     (if n = 1 then valid else invalid ''invalid_sequence'', tr @ [AccountInfo ''rSender''])"
proof -
  have 9: "checkAccountBalance (sampleClient n er) ''rSender'' (AStr ''1000000'') ''12'' 1 None tr =
      (if n = 1 then None else Some (invalid ''invalid_sequence''), tr @ [AccountInfo ''rSender''])"
    by (simp add: checkAccountBalance_def sampleClient_def)
  have 10: "\<And>c t. checkLedgerExpiry c None t = (None, t)"
    by (simp add: checkLedgerExpiry_def)
  show ?thesis
    by (simp add: verifyNetwork_def Let_def 9 10)
qed

lemma sample_verify:
  assumes "decode env = sampleDecode" "validate env = (\<lambda>tx. Inr ())"
    "verifySignature env = sampleVerifySignature"
  shows "verify env (samplePayload ''xrp'' (AStr ''1000000'') fb)
           (sampleRequirements ''1000000'' ''XRP'') (Some (sampleClient n er)) tr =
         (Inr (if n = 1 then valid else invalid ''invalid_sequence''),
          tr @ [AccountInfo ''rSender''])"
  by (simp add: sample_offline [OF assms] sample_network)

lemma sample_submit_success:
  assumes "b \<noteq> ''fee''"
  shows "submitAndWait (sampleClient n ''tesSUCCESS'') b 10 tr =
     (Inr \<lparr>success = True, transaction = Some ''H1'', network = Some [],
           payer = Some ''rSender'', errorReason = None\<rparr>, tr @ [Submit b, Tx ''H1''])"
proof -
  have p: "pollTx (sampleClient n ''tesSUCCESS'') ''H1'' 10 (tr @ [Submit b]) =
     (\<lparr>success = True, transaction = Some ''H1'', network = Some [],
       payer = Some ''rSender'', errorReason = None\<rparr>, tr @ [Submit b, Tx ''H1''])"
    by (simp add: eval_nat_numeral sampleClient_def)
  have s: "submit (sampleClient n ''tesSUCCESS'') tr b =
             Inr \<lparr>engine_result = ''tesSUCCESS'', hash = Some ''H1''\<rparr>"
    using assms by (simp add: sampleClient_def)
  show ?thesis
    by (simp add: submitAndWait_def Let_def s startsWith_def p)
qed

lemma sample_submit_fee_throws:
  "submitAndWait (sampleClient n er) ''fee'' 10 tr =
     (Inl (Error ''fee rejected''), tr @ [Submit ''fee''])"
  by (simp add: submitAndWait_def sampleClient_def)

lemma sample_submit_rejected:
  assumes "b \<noteq> ''fee''"
  shows "submitAndWait (sampleClient n ''tecUNFUNDED_PAYMENT'') b 10 tr =
     (Inr (failure ''insufficient_funds'' (Some ''H1'') []), tr @ [Submit b])"
  using assms
  by (simp add: submitAndWait_def sampleClient_def startsWith_def mapEngineResult_def
      engineResultMap_def)

subsection \<open>Settlement re-verifies before it submits\<close>

lemma sampleEnv_lib:
  "decode sampleEnv = sampleDecode" "validate sampleEnv = (\<lambda>tx. Inr ())"
  "verifySignature sampleEnv = sampleVerifySignature"
  "decode paidEnv = sampleDecode" "validate paidEnv = (\<lambda>tx. Inr ())"
  "verifySignature paidEnv = sampleVerifySignature"
  by (simp_all add: sampleEnv_def paidEnv_def)

text \<open>
  C7.  \<open>settle\<close> first runs \<open>verify\<close> with the client on the current ledger.  When that
  fails, \<open>settle\<close> returns a failure carrying the verification reason and nothing has been
  submitted.  Whenever \<open>settle\<close> submits anything, the verification has passed, and the
  first blob submitted is the payment blob.
\<close>

theorem settle_submits_only_after_verification:
  "(\<forall>vr tr1.
      verify env payload requirements (Some c) tr = (Inr vr, tr1) \<and> \<not> isValid vr \<longrightarrow>
        settle env payload requirements c net tr =
          (Inr \<lparr>success = False, transaction = None, network = Some net, payer = None,
                errorReason = Some (case invalidReason vr of Some r \<Rightarrow> r
                                    | None \<Rightarrow> ''verification_failed'')\<rparr>, tr1) \<and>
        submitted tr1 = submitted tr) \<and>
   (submitted (snd (settle env payload requirements c net tr)) \<noteq> submitted tr \<longrightarrow>
      (\<exists>vr tr1. verify env payload requirements (Some c) tr = (Inr vr, tr1) \<and> isValid vr) \<and>
      (\<exists>rest. submitted (snd (settle env payload requirements c net tr)) =
                submitted tr @ txBlob payload # rest))"
proof (intro conjI allI impI)
  fix vr tr1
  assume h: "verify env payload requirements (Some c) tr = (Inr vr, tr1) \<and> \<not> isValid vr"
  then show "settle env payload requirements c net tr =
          (Inr \<lparr>success = False, transaction = None, network = Some net, payer = None,
                errorReason = Some (case invalidReason vr of Some r \<Rightarrow> r
                                    | None \<Rightarrow> ''verification_failed'')\<rparr>, tr1)"
    by (simp add: settle_verify_failed)
  show "submitted tr1 = submitted tr"
    using verify_submitted [of env payload requirements "Some c" tr] h by simp
next
  assume ne: "submitted (snd (settle env payload requirements c net tr)) \<noteq> submitted tr"
  obtain res tr1 where v: "verify env payload requirements (Some c) tr = (res, tr1)"
    by (rule prod.exhaust)
  have t1: "submitted tr1 = submitted tr"
    using verify_submitted [of env payload requirements "Some c" tr] v by simp
  have ok: "\<exists>vr. res = Inr vr \<and> isValid vr"
  proof (cases res)
    case (Inl e)
    then show ?thesis using ne v t1 by (simp add: settle_verify_throws)
  next
    case (Inr vr)
    then show ?thesis using ne v t1 by (cases "isValid vr") (simp_all add: settle_verify_failed)
  qed
  then obtain vr where vr: "res = Inr vr" "isValid vr" by blast
  show "\<exists>vr tr1. verify env payload requirements (Some c) tr = (Inr vr, tr1) \<and> isValid vr"
    using v vr by blast
  let ?fee = "if isMPTAmount (amount (authorization payload))
          then verifyFeePayload env payload (mpt (feeSchedule env)) else None"
  have v': "verify env payload requirements (Some c) tr = (Inr vr, tr1)" using v vr by simp
  show "\<exists>rest. submitted (snd (settle env payload requirements c net tr)) =
                submitted tr @ txBlob payload # rest"
  proof (cases ?fee)
    case (Some f)
    then show ?thesis using ne t1 settle_fee_rejected [OF v' vr(2) Some] by simp
  next
    case None
    obtain x tr2 where s: "submitAndWait c (txBlob payload) 10 tr1 = (x, tr2)"
      by (rule prod.exhaust)
    have t2: "submitted tr2 = submitted tr @ [txBlob payload]"
      using submitAndWait_submitted [of c "txBlob payload" 10 tr1] s t1 by simp
    show ?thesis
    proof (cases x)
      case (Inl e)
      then show ?thesis using settle_submit_throws [OF v' vr(2) None] s t2 by simp
    next
      case (Inr m)
      then show ?thesis using settle_submitted_result [OF v' vr(2) None] s t2 by simp
    qed
  qed
qed

theorem settle_submits_only_after_verification_witness:
  "verify sampleEnv (samplePayload ''xrp'' (AStr ''1000000'') None)
     (sampleRequirements ''1000000'' ''XRP'') (Some (sampleClient 2 ''tesSUCCESS'')) [] =
     (Inr (invalid ''invalid_sequence''), [AccountInfo ''rSender'']) \<and>
   settle sampleEnv (samplePayload ''xrp'' (AStr ''1000000'') None)
     (sampleRequirements ''1000000'' ''XRP'') (sampleClient 2 ''tesSUCCESS'') ''xrpl:1'' [] =
     (Inr \<lparr>success = False, transaction = None, network = Some ''xrpl:1'', payer = None,
           errorReason = Some ''invalid_sequence''\<rparr>, [AccountInfo ''rSender'']) \<and>
   submitted [AccountInfo ''rSender''] = []"
proof -
  let ?p = "samplePayload ''xrp'' (AStr ''1000000'') None"
  let ?r = "sampleRequirements ''1000000'' ''XRP''"
  let ?c = "sampleClient 2 ''tesSUCCESS''"
  have v: "verify sampleEnv ?p ?r (Some ?c) [] =
             (Inr (invalid ''invalid_sequence''), [AccountInfo ''rSender''])"
    by (simp add: sample_verify sampleEnv_lib)
  have n: "\<not> isValid (invalid ''invalid_sequence'')" by (simp add: invalid_def)
  from settle_submits_only_after_verification [where env = sampleEnv and payload = ?p
      and requirements = ?r and c = ?c and tr = "[]" and net = "''xrpl:1''",
      THEN conjunct1, rule_format, OF conjI [OF v n]]
  show ?thesis using v by (simp add: invalid_def)
qed

subsection \<open>A failing fee settlement is not propagated\<close>

text \<open>
  C8.  \<open>settleWithFee\<close> returns the merchant result whatever the fee submission does
  (fail, time out or throw).  So when verification and the fee check pass and the primary
  settlement succeeds, \<open>settle\<close> returns the primary success record, with its transaction
  id, for every behaviour of the ledger during the fee submission.
\<close>

theorem fee_failure_not_propagated:
  "fst (settleWithFee c m feeBlob net tr) = m \<and>
   (\<forall>vr tr1 tr2.
      verify env payload requirements (Some c) tr = (Inr vr, tr1) \<and> isValid vr \<and>
      (if isMPTAmount (amount (authorization payload))
       then verifyFeePayload env payload (mpt (feeSchedule env)) else None) = None \<and>
      submitAndWait c (txBlob payload) 10 tr1 = (Inr m, tr2) \<and> success m \<longrightarrow>
        fst (settle env payload requirements c net tr) = Inr (m\<lparr>network := Some net\<rparr>) \<and>
        success (m\<lparr>network := Some net\<rparr>) \<and>
        transaction (m\<lparr>network := Some net\<rparr>) = transaction m)"
proof (intro conjI allI impI)
  show "fst (settleWithFee c m feeBlob net tr) = m" by (rule settleWithFee_result)
next
  fix vr tr1 tr2
  assume h: "verify env payload requirements (Some c) tr = (Inr vr, tr1) \<and> isValid vr \<and>
      (if isMPTAmount (amount (authorization payload))
       then verifyFeePayload env payload (mpt (feeSchedule env)) else None) = None \<and>
      submitAndWait c (txBlob payload) 10 tr1 = (Inr m, tr2) \<and> success m"
  then have a: "verify env payload requirements (Some c) tr = (Inr vr, tr1)"
    and b: "isValid vr"
    and f: "(if isMPTAmount (amount (authorization payload))
       then verifyFeePayload env payload (mpt (feeSchedule env)) else None) = None"
    and s: "submitAndWait c (txBlob payload) 10 tr1 = (Inr m, tr2)"
    by simp_all
  from settle_submitted_result [OF a b f s]
  show "fst (settle env payload requirements c net tr) = Inr (m\<lparr>network := Some net\<rparr>)"
    by simp
  show "success (m\<lparr>network := Some net\<rparr>)" using h by simp
  show "transaction (m\<lparr>network := Some net\<rparr>) = transaction m" by simp
qed

theorem fee_failure_not_propagated_witness:
  "submitAndWait (sampleClient 1 ''tesSUCCESS'') ''fee'' 10
     [AccountInfo ''rSender'', Submit ''xrp'', Tx ''H1''] =
     (Inl (Error ''fee rejected''), [AccountInfo ''rSender'', Submit ''xrp'', Tx ''H1'', Submit ''fee'']) \<and>
   fst (settle sampleEnv (samplePayload ''xrp'' (AStr ''1000000'') (Some ''fee''))
     (sampleRequirements ''1000000'' ''XRP'') (sampleClient 1 ''tesSUCCESS'') ''xrpl:1'' []) =
     Inr \<lparr>success = True, transaction = Some ''H1'', network = Some ''xrpl:1'',
          payer = Some ''rSender'', errorReason = None\<rparr>"
proof -
  let ?p = "samplePayload ''xrp'' (AStr ''1000000'') (Some ''fee'')"
  let ?r = "sampleRequirements ''1000000'' ''XRP''"
  let ?c = "sampleClient 1 ''tesSUCCESS''"
  let ?m = "\<lparr>success = True, transaction = Some ''H1'', network = Some [],
           payer = Some ''rSender'', errorReason = None\<rparr>"
  have v: "verify sampleEnv ?p ?r (Some ?c) [] = (Inr valid, [AccountInfo ''rSender''])"
    by (simp add: sample_verify sampleEnv_lib)
  have s: "submitAndWait ?c (txBlob ?p) 10 [AccountInfo ''rSender''] =
             (Inr ?m, [AccountInfo ''rSender'', Submit ''xrp'', Tx ''H1''])"
    by (simp add: sample_submit_success)
  have h: "verify sampleEnv ?p ?r (Some ?c) [] = (Inr valid, [AccountInfo ''rSender'']) \<and>
      isValid valid \<and>
      (if isMPTAmount (amount (authorization ?p))
       then verifyFeePayload sampleEnv ?p (mpt (feeSchedule sampleEnv)) else None) = None \<and>
      submitAndWait ?c (txBlob ?p) 10 [AccountInfo ''rSender''] =
         (Inr ?m, [AccountInfo ''rSender'', Submit ''xrp'', Tx ''H1'']) \<and> success ?m"
    using v s by (simp add: valid_def)
  from fee_failure_not_propagated [where env = sampleEnv and payload = ?p
      and requirements = ?r and c = ?c and tr = "[]" and net = "''xrpl:1''" and m = ?m,
      THEN conjunct2, rule_format, OF h]
  show ?thesis by (simp add: sample_submit_fee_throws)
qed

subsection \<open>No fee submission after a failed settlement\<close>

lemma failure_network [simp]: "(failure r t n)\<lparr>network := Some n'\<rparr> = failure r t n'"
  by (simp add: failure_def)

text \<open>
  C9.  When \<open>settle\<close> does not return a success (a failure record, or a throw of the
  verification), the blobs it has submitted are none at all or the payment blob alone:
  the fee blob is never submitted.  \<open>settleWithFee\<close> called with a failed merchant
  result returns it without any call on the client.
\<close>

theorem failed_settlement_submits_no_fee:
  "((case fst (settle env payload requirements c net tr) of
       Inl e \<Rightarrow> True
     | Inr r \<Rightarrow> \<not> success r) \<longrightarrow>
      submitted (snd (settle env payload requirements c net tr)) = submitted tr \<or>
      submitted (snd (settle env payload requirements c net tr)) =
        submitted tr @ [txBlob payload]) \<and>
   (\<not> success m \<longrightarrow> settleWithFee c m feeBlob net tr = (m, tr))"
proof (intro conjI impI)
  assume "\<not> success m"
  then show "settleWithFee c m feeBlob net tr = (m, tr)" by (simp add: settleWithFee_def)
next
  assume fl: "case fst (settle env payload requirements c net tr) of
       Inl e \<Rightarrow> True
     | Inr r \<Rightarrow> \<not> success r"
  obtain res tr1 where v: "verify env payload requirements (Some c) tr = (res, tr1)"
    by (rule prod.exhaust)
  have t1: "submitted tr1 = submitted tr"
    using verify_submitted [of env payload requirements "Some c" tr] v by simp
  let ?fee = "if isMPTAmount (amount (authorization payload))
          then verifyFeePayload env payload (mpt (feeSchedule env)) else None"
  show "submitted (snd (settle env payload requirements c net tr)) = submitted tr \<or>
      submitted (snd (settle env payload requirements c net tr)) =
        submitted tr @ [txBlob payload]"
  proof (cases res)
    case (Inl e)
    then show ?thesis using v t1 by (simp add: settle_verify_throws)
  next
    case (Inr vr)
    then have v': "verify env payload requirements (Some c) tr = (Inr vr, tr1)" using v by simp
    show ?thesis
    proof (cases "isValid vr")
      case False
      then show ?thesis using v' t1 by (simp add: settle_verify_failed)
    next
      case True
      show ?thesis
      proof (cases ?fee)
        case (Some f)
        then show ?thesis using t1 settle_fee_rejected [OF v' True Some] by simp
      next
        case None
        obtain x tr2 where s: "submitAndWait c (txBlob payload) 10 tr1 = (x, tr2)"
          by (rule prod.exhaust)
        have t2: "submitted tr2 = submitted tr @ [txBlob payload]"
          using submitAndWait_submitted [of c "txBlob payload" 10 tr1] s t1 by simp
        show ?thesis
        proof (cases x)
          case (Inl e)
          then show ?thesis using settle_submit_throws [OF v' True None] s t2 by simp
        next
          case (Inr r)
          then have st: "settle env payload requirements c net tr =
             (if truthy (feeTxBlob payload) \<and> success r
              then (Inr (r\<lparr>network := Some net\<rparr>),
                    snd (submitAndWait c (case feeTxBlob payload of Some b \<Rightarrow> b | None \<Rightarrow> [])
                           10 tr2))
              else (Inr (r\<lparr>network := Some net\<rparr>), tr2))"
            using settle_submitted_result [OF v' True None] s by simp
          show ?thesis
          proof (cases "truthy (feeTxBlob payload) \<and> success r")
            case True
            then show ?thesis using fl st by simp
          next
            case False
            then show ?thesis using st t2 by auto
          qed
        qed
      qed
    qed
  qed
qed

theorem failed_settlement_submits_no_fee_witness:
  "settle sampleEnv (samplePayload ''xrp'' (AStr ''1000000'') (Some ''fee''))
     (sampleRequirements ''1000000'' ''XRP'') (sampleClient 1 ''tecUNFUNDED_PAYMENT'') ''xrpl:1'' [] =
     (Inr (failure ''insufficient_funds'' (Some ''H1'') ''xrpl:1''),
      [AccountInfo ''rSender'', Submit ''xrp'']) \<and>
   submitted (snd (settle sampleEnv (samplePayload ''xrp'' (AStr ''1000000'') (Some ''fee''))
     (sampleRequirements ''1000000'' ''XRP'') (sampleClient 1 ''tecUNFUNDED_PAYMENT'')
     ''xrpl:1'' [])) = [''xrp'']"
proof -
  let ?p = "samplePayload ''xrp'' (AStr ''1000000'') (Some ''fee'')"
  let ?r = "sampleRequirements ''1000000'' ''XRP''"
  let ?c = "sampleClient 1 ''tecUNFUNDED_PAYMENT''"
  have v: "verify sampleEnv ?p ?r (Some ?c) [] = (Inr valid, [AccountInfo ''rSender''])"
    by (simp add: sample_verify sampleEnv_lib)
  have s: "submitAndWait ?c (txBlob ?p) 10 [AccountInfo ''rSender''] =
             (Inr (failure ''insufficient_funds'' (Some ''H1'') []),
              [AccountInfo ''rSender'', Submit ''xrp''])"
    by (simp add: sample_submit_rejected)
  have ok: "isValid valid" by (simp add: valid_def)
  have f: "(if isMPTAmount (amount (authorization ?p))
       then verifyFeePayload sampleEnv ?p (mpt (feeSchedule sampleEnv)) else None) = None"
    by simp
  have st: "settle sampleEnv ?p ?r ?c ''xrpl:1'' [] =
     (Inr (failure ''insufficient_funds'' (Some ''H1'') ''xrpl:1''),
      [AccountInfo ''rSender'', Submit ''xrp''])"
    using settle_submitted_result [OF v ok f s, of "''xrpl:1''"] by (simp add: failure_def)
  have fl: "case fst (settle sampleEnv ?p ?r ?c ''xrpl:1'' []) of
       Inl e \<Rightarrow> True
     | Inr r \<Rightarrow> \<not> success r"
    by (simp add: st failure_def)
  from failed_settlement_submits_no_fee [where env = sampleEnv and payload = ?p
      and requirements = ?r and c = ?c and tr = "[]" and net = "''xrpl:1''",
      THEN conjunct1, rule_format, OF fl]
  have "submitted (snd (settle sampleEnv ?p ?r ?c ''xrpl:1'' [])) = [] \<or>
        submitted (snd (settle sampleEnv ?p ?r ?c ''xrpl:1'' [])) = [''xrp'']"
    by simp
  then show ?thesis using st by simp
qed

subsection \<open>Fee verification and fee submission for other than MPT amounts\<close>

text \<open>Only \<open>verifyFeePayload\<close> reads the facilitator address and the fee schedule.\<close>

lemma fee_env_sel:
  "decode (env\<lparr>FACILITATOR_ADDRESS := fa, feeSchedule := fs\<rparr>) = decode env"
  "validate (env\<lparr>FACILITATOR_ADDRESS := fa, feeSchedule := fs\<rparr>) = validate env"
  "verifySignature (env\<lparr>FACILITATOR_ADDRESS := fa, feeSchedule := fs\<rparr>) = verifySignature env"
  "toDouble (env\<lparr>FACILITATOR_ADDRESS := fa, feeSchedule := fs\<rparr>) = toDouble env"
  "mptAllowlist (env\<lparr>FACILITATOR_ADDRESS := fa, feeSchedule := fs\<rparr>) = mptAllowlist env"
  by simp_all

lemma parseFloat_fee_env:
  "parseFloat (env\<lparr>FACILITATOR_ADDRESS := fa, feeSchedule := fs\<rparr>) = parseFloat env"
  unfolding parseFloat_def fee_env_sel by (rule refl)

lemma getMptConfig_fee_env:
  "getMptConfig (env\<lparr>FACILITATOR_ADDRESS := fa, feeSchedule := fs\<rparr>) = getMptConfig env"
  unfolding getMptConfig_def fee_env_sel by (rule refl)

lemma offline_fee_env:
  "decodeTxBlob (env\<lparr>FACILITATOR_ADDRESS := fa, feeSchedule := fs\<rparr>) b = decodeTxBlob env b"
  "validateTransaction (env\<lparr>FACILITATOR_ADDRESS := fa, feeSchedule := fs\<rparr>) tx =
     validateTransaction env tx"
  "verifyTxSignature (env\<lparr>FACILITATOR_ADDRESS := fa, feeSchedule := fs\<rparr>) b =
     verifyTxSignature env b"
  "crossCheckAuthorization (env\<lparr>FACILITATOR_ADDRESS := fa, feeSchedule := fs\<rparr>) tx p =
     crossCheckAuthorization env tx p"
  "checkAmount (env\<lparr>FACILITATOR_ADDRESS := fa, feeSchedule := fs\<rparr>) p r = checkAmount env p r"
  "checkMptAllowlist (env\<lparr>FACILITATOR_ADDRESS := fa, feeSchedule := fs\<rparr>) n a =
     checkMptAllowlist env n a"
  unfolding decodeTxBlob_def validateTransaction_def verifyTxSignature_def
    crossCheckAuthorization_def checkAmount_def checkMptAllowlist_def
    parseFloat_fee_env getMptConfig_fee_env fee_env_sel
  by (rule refl)+

lemma network_fee_env:
  "checkTrustLine (env\<lparr>FACILITATOR_ADDRESS := fa, feeSchedule := fs\<rparr>) c d a tr =
     checkTrustLine env c d a tr"
  "checkMptHolder (env\<lparr>FACILITATOR_ADDRESS := fa, feeSchedule := fs\<rparr>) c acct a tr =
     checkMptHolder env c acct a tr"
  unfolding checkTrustLine_def checkMptHolder_def parseFloat_fee_env
  by (rule refl)+

lemma verifyNetwork_fee_env:
  "verifyNetwork (env\<lparr>FACILITATOR_ADDRESS := fa, feeSchedule := fs\<rparr>) c p tr =
     verifyNetwork env c p tr"
  unfolding verifyNetwork_def network_fee_env by (rule refl)

lemma verify_fee_env [simp]:
  "verify (env\<lparr>FACILITATOR_ADDRESS := fa, feeSchedule := fs\<rparr>) p r cl tr = verify env p r cl tr"
  unfolding verify_def offline_fee_env verifyNetwork_fee_env by (rule refl)

text \<open>
  C10.  For an amount that is not an MPT amount, \<open>settle\<close> does not run
  \<open>verifyFeePayload\<close>: its outcome is the same under every fee schedule and facilitator
  address.  Yet when verification passes, the primary settlement succeeds and the payload
  carries a non-empty fee blob, that blob is submitted right after the payment blob.
\<close>

theorem fee_submitted_without_verification_for_non_mpt:
  "\<not> isMPTAmount (amount (authorization payload)) \<longrightarrow>
     settle (env\<lparr>FACILITATOR_ADDRESS := fa, feeSchedule := fs\<rparr>) payload requirements c net tr =
       settle env payload requirements c net tr \<and>
     (\<forall>vr tr1 m tr2 b.
        verify env payload requirements (Some c) tr = (Inr vr, tr1) \<and> isValid vr \<and>
        submitAndWait c (txBlob payload) 10 tr1 = (Inr m, tr2) \<and> success m \<and>
        feeTxBlob payload = Some b \<and> b \<noteq> [] \<longrightarrow>
          fst (settle env payload requirements c net tr) = Inr (m\<lparr>network := Some net\<rparr>) \<and>
          submitted (snd (settle env payload requirements c net tr)) =
            submitted tr @ [txBlob payload, b])"
proof (intro conjI allI impI)
  assume n: "\<not> isMPTAmount (amount (authorization payload))"
  then show "settle (env\<lparr>FACILITATOR_ADDRESS := fa, feeSchedule := fs\<rparr>) payload requirements
               c net tr = settle env payload requirements c net tr"
    by (simp add: settle_def)
  fix vr tr1 m tr2 b
  assume h: "verify env payload requirements (Some c) tr = (Inr vr, tr1) \<and> isValid vr \<and>
        submitAndWait c (txBlob payload) 10 tr1 = (Inr m, tr2) \<and> success m \<and>
        feeTxBlob payload = Some b \<and> b \<noteq> []"
  then have a: "verify env payload requirements (Some c) tr = (Inr vr, tr1)"
    and ok: "isValid vr"
    and s: "submitAndWait c (txBlob payload) 10 tr1 = (Inr m, tr2)"
    and m: "success m" and b: "feeTxBlob payload = Some b" "b \<noteq> []"
    by simp_all
  have f: "(if isMPTAmount (amount (authorization payload))
       then verifyFeePayload env payload (mpt (feeSchedule env)) else None) = None"
    using n by simp
  have t1: "submitted tr1 = submitted tr"
    using verify_submitted [of env payload requirements "Some c" tr] a by simp
  have t2: "submitted tr2 = submitted tr @ [txBlob payload]"
    using submitAndWait_submitted [of c "txBlob payload" 10 tr1] s t1 by simp
  have st: "settle env payload requirements c net tr =
      (Inr (m\<lparr>network := Some net\<rparr>), snd (submitAndWait c b 10 tr2))"
    using settle_submitted_result [OF a ok f s, of net] m b by simp
  show "fst (settle env payload requirements c net tr) = Inr (m\<lparr>network := Some net\<rparr>)"
    by (simp add: st)
  show "submitted (snd (settle env payload requirements c net tr)) =
            submitted tr @ [txBlob payload, b]"
    by (simp add: st t2)
qed

theorem fee_submitted_without_verification_for_non_mpt_witness:
  "verifyFeePayload paidEnv (samplePayload ''xrp'' (AStr ''1000000'') (Some ''nofee''))
     (mpt (feeSchedule paidEnv)) = Some (invalid ''fee_payment_required'') \<and>
   fst (settle paidEnv (samplePayload ''xrp'' (AStr ''1000000'') (Some ''nofee''))
     (sampleRequirements ''1000000'' ''XRP'') (sampleClient 1 ''tesSUCCESS'') ''xrpl:1'' []) =
     Inr \<lparr>success = True, transaction = Some ''H1'', network = Some ''xrpl:1'',
          payer = Some ''rSender'', errorReason = None\<rparr> \<and>
   submitted (snd (settle paidEnv (samplePayload ''xrp'' (AStr ''1000000'') (Some ''nofee''))
     (sampleRequirements ''1000000'' ''XRP'') (sampleClient 1 ''tesSUCCESS'') ''xrpl:1'' [])) =
     [''xrp'', ''nofee''] \<and>
   settle paidEnv (samplePayload ''xrp'' (AStr ''1000000'') (Some ''nofee''))
     (sampleRequirements ''1000000'' ''XRP'') (sampleClient 1 ''tesSUCCESS'') ''xrpl:1'' [] =
   settle sampleEnv (samplePayload ''xrp'' (AStr ''1000000'') (Some ''nofee''))
     (sampleRequirements ''1000000'' ''XRP'') (sampleClient 1 ''tesSUCCESS'') ''xrpl:1'' []"
proof -
  let ?p = "samplePayload ''xrp'' (AStr ''1000000'') (Some ''nofee'')"
  let ?r = "sampleRequirements ''1000000'' ''XRP''"
  let ?c = "sampleClient 1 ''tesSUCCESS''"
  let ?m = "\<lparr>success = True, transaction = Some ''H1'', network = Some [],
           payer = Some ''rSender'', errorReason = None\<rparr>"
  have n: "\<not> isMPTAmount (amount (authorization ?p))" by simp
  have fee: "verifyFeePayload paidEnv ?p (mpt (feeSchedule paidEnv)) =
               Some (invalid ''fee_payment_required'')"
    by (simp add: verifyFeePayload_def paidEnv_def)
  have h: "verify paidEnv ?p ?r (Some ?c) [] = (Inr valid, [AccountInfo ''rSender'']) \<and>
      isValid valid \<and>
      submitAndWait ?c (txBlob ?p) 10 [AccountInfo ''rSender''] =
         (Inr ?m, [AccountInfo ''rSender'', Submit ''xrp'', Tx ''H1'']) \<and> success ?m \<and>
      feeTxBlob ?p = Some ''nofee'' \<and> ''nofee'' \<noteq> []"
    by (simp add: sample_verify sampleEnv_lib sample_submit_success valid_def)
  note T = fee_submitted_without_verification_for_non_mpt [where payload = ?p
      and requirements = ?r and c = ?c and tr = "[]" and net = "''xrpl:1''", rule_format, OF n]
  from T [where env = paidEnv, THEN conjunct2, rule_format, OF h]
  have 1: "fst (settle paidEnv ?p ?r ?c ''xrpl:1'' []) =
      Inr \<lparr>success = True, transaction = Some ''H1'', network = Some ''xrpl:1'',
          payer = Some ''rSender'', errorReason = None\<rparr>"
    and 2: "submitted (snd (settle paidEnv ?p ?r ?c ''xrpl:1'' [])) = [''xrp'', ''nofee'']"
    by simp_all
  from T [where env = sampleEnv and fa = "Some ''rFacilitator''"
      and fs = "\<lparr>standard = None, mpt = Some ''100000'', crossCurrency = Some ''0''\<rparr>",
      THEN conjunct1]
  have 3: "settle paidEnv ?p ?r ?c ''xrpl:1'' [] = settle sampleEnv ?p ?r ?c ''xrpl:1'' []"
    by (simp add: paidEnv_def)
  show ?thesis using fee 1 2 3 by simp
qed

end
